theory Spec2Isabelle
  imports Main
begin

section \<open>Python values and the library operations the translator uses\<close>

text \<open>
  The translator in \<^verbatim>\<open>container/k8s/deploy.py\<close> works on the parsed configuration tree:
  nested mappings, sequences, strings, integers, booleans and null. A mapping is an
  association list in insertion order (the code builds \<^verbatim>\<open>CommentedMap\<close>s, which keep
  it); its keys are strings. Floats are not modelled.
\<close>

datatype pyval =
    PNone
  | PBool bool
  | PInt int
  | PStr string
  | PList "pyval list"
  | PDict "(string \<times> pyval) list"

datatype error = KeyError | TypeError | ValueError | AttributeError | UnboundLocalError

type_synonym 'a result = "error + 'a"

definition bnd :: "'a result \<Rightarrow> ('a \<Rightarrow> 'b result) \<Rightarrow> 'b result" where
  "bnd m f = (case m of Inl e \<Rightarrow> Inl e | Inr x \<Rightarrow> f x)"

text \<open>A \<^verbatim>\<open>for\<close> loop whose body may raise: the first exception ends the loop.\<close>

fun for_each :: "('s \<Rightarrow> 'a \<Rightarrow> 's result) \<Rightarrow> 'a list \<Rightarrow> 's \<Rightarrow> 's result" where
  "for_each body [] s = Inr s"
| "for_each body (x # xs) s = bnd (body s x) (for_each body xs)"

text \<open>Truth value of an object, as \<^verbatim>\<open>if x:\<close> tests it.\<close>

fun truthy :: "pyval \<Rightarrow> bool" where
  "truthy PNone = False"
| "truthy (PBool b) = b"
| "truthy (PInt i) = (i \<noteq> 0)"
| "truthy (PStr s) = (s \<noteq> [])"
| "truthy (PList xs) = (xs \<noteq> [])"
| "truthy (PDict d) = (d \<noteq> [])"

text \<open>\<^verbatim>\<open>d[k] = v\<close> on a mapping: an existing key keeps its position, a new key goes last.\<close>

fun dict_set :: "(string \<times> 'v) list \<Rightarrow> string \<Rightarrow> 'v \<Rightarrow> (string \<times> 'v) list" where
  "dict_set [] k v = [(k, v)]"
| "dict_set ((k', v') # d) k v = (if k' = k then (k, v) # d else (k', v') # dict_set d k v)"

text \<open>\<^verbatim>\<open>x.get(k)\<close>: only a mapping has the method.\<close>

fun py_get :: "pyval \<Rightarrow> string \<Rightarrow> pyval result" where
  "py_get (PDict d) k = Inr (case map_of d k of None \<Rightarrow> PNone | Some v \<Rightarrow> v)"
| "py_get _ k = Inl AttributeError"

text \<open>\<^verbatim>\<open>x[k]\<close> with a string key \<open>k\<close>: a missing key of a mapping is a \<^verbatim>\<open>KeyError\<close>,
  every other object refuses a string subscript with a \<^verbatim>\<open>TypeError\<close>.\<close>

fun py_getitem :: "pyval \<Rightarrow> string \<Rightarrow> pyval result" where
  "py_getitem (PDict d) k = (case map_of d k of None \<Rightarrow> Inl KeyError | Some v \<Rightarrow> Inr v)"
| "py_getitem _ k = Inl TypeError"

text \<open>\<^verbatim>\<open>x[k] = v\<close> with a string key.\<close>

fun py_setitem :: "pyval \<Rightarrow> string \<Rightarrow> pyval \<Rightarrow> pyval result" where
  "py_setitem (PDict d) k v = Inr (PDict (dict_set d k v))"
| "py_setitem _ k v = Inl TypeError"

text \<open>\<^verbatim>\<open>x.append(v)\<close>: only a sequence has the method.\<close>

fun py_append :: "pyval \<Rightarrow> pyval \<Rightarrow> pyval result" where
  "py_append (PList xs) v = Inr (PList (xs @ [v]))"
| "py_append _ v = Inl AttributeError"

text \<open>The elements a \<^verbatim>\<open>for\<close> loop visits: a string yields its characters, a mapping its keys.\<close>

fun py_iter :: "pyval \<Rightarrow> pyval list result" where
  "py_iter (PList xs) = Inr xs"
| "py_iter (PStr s) = Inr (map (\<lambda>c. PStr [c]) s)"
| "py_iter (PDict d) = Inr (map (\<lambda>kv. PStr (fst kv)) d)"
| "py_iter _ = Inl TypeError"

text \<open>\<^verbatim>\<open>x.items()\<close>.\<close>

fun py_items :: "pyval \<Rightarrow> (string \<times> pyval) list result" where
  "py_items (PDict d) = Inr d"
| "py_items _ = Inl AttributeError"

text \<open>\<^verbatim>\<open>s.split(sep)\<close> for a one-character separator, and \<^verbatim>\<open>s.split(sep, 1)\<close>.\<close>

fun py_split :: "char \<Rightarrow> string \<Rightarrow> string list" where
  "py_split sep [] = [[]]"
| "py_split sep (c # cs) =
     (if c = sep then [] # py_split sep cs
      else (case py_split sep cs of [] \<Rightarrow> [[c]] | p # ps \<Rightarrow> (c # p) # ps))"

fun py_split1 :: "char \<Rightarrow> string \<Rightarrow> string list" where
  "py_split1 sep [] = [[]]"
| "py_split1 sep (c # cs) =
     (if c = sep then [[], cs]
      else (case py_split1 sep cs of [] \<Rightarrow> [[c]] | p # ps \<Rightarrow> (c # p) # ps))"

text \<open>\<^verbatim>\<open>a, b = parts\<close>: any other number of parts is a \<^verbatim>\<open>ValueError\<close>.\<close>

fun unpack2 :: "string list \<Rightarrow> (string \<times> string) result" where
  "unpack2 [a, b] = Inr (a, b)"
| "unpack2 _ = Inl ValueError"

text \<open>\<^verbatim>\<open>x.get(k, default)\<close>.\<close>

fun py_get_default :: "pyval \<Rightarrow> string \<Rightarrow> pyval \<Rightarrow> pyval result" where
  "py_get_default (PDict d) k dflt = Inr (case map_of d k of None \<Rightarrow> dflt | Some v \<Rightarrow> v)"
| "py_get_default _ k dflt = Inl AttributeError"

text \<open>\<^verbatim>\<open>needle in x\<close> for a string \<open>needle\<close>: a substring test on a string, membership
  in a sequence, a key test on a mapping; nothing else is a container.\<close>

fun has_substring :: "string \<Rightarrow> string \<Rightarrow> bool" where
  "has_substring needle [] = (needle = [])"
| "has_substring needle (c # cs) =
     (take (length needle) (c # cs) = needle \<or> has_substring needle cs)"

fun py_in :: "string \<Rightarrow> pyval \<Rightarrow> bool result" where
  "py_in needle (PStr s) = Inr (has_substring needle s)"
| "py_in needle (PList xs) = Inr (PStr needle \<in> set xs)"
| "py_in needle (PDict d) = Inr (needle \<in> set (map fst d))"
| "py_in needle _ = Inl TypeError"

text \<open>
  \<^verbatim>\<open>int(x)\<close>. A string is read as Python 2 reads it: blanks around it are dropped, one
  sign is allowed, and what remains must be a non-empty run of decimal digits. A list, a
  mapping and null are a \<^verbatim>\<open>TypeError\<close>.
\<close>

definition is_space :: "char \<Rightarrow> bool" where
  "is_space c = (c \<in> set [CHR '' '', CHR 0x09, CHR 0x0A, CHR 0x0B, CHR 0x0C, CHR 0x0D])"

definition is_digit :: "char \<Rightarrow> bool" where
  "is_digit c = (let n = (of_char c :: nat) in 48 \<le> n \<and> n \<le> 57)"

definition digits_value :: "string \<Rightarrow> int" where
  "digits_value ds = foldl (\<lambda>a c. 10 * a + (int (of_char c) - 48)) 0 ds"

definition strip :: "string \<Rightarrow> string" where
  "strip s = rev (dropWhile is_space (rev (dropWhile is_space s)))"

definition unsigned_of_string :: "string \<Rightarrow> int option" where
  "unsigned_of_string ds = (if ds \<noteq> [] \<and> list_all is_digit ds then Some (digits_value ds) else None)"

definition int_of_string :: "string \<Rightarrow> int option" where
  "int_of_string s =
     (case strip s of
        [] \<Rightarrow> None
      | c # cs \<Rightarrow>
          if c = CHR ''-'' then map_option uminus (unsigned_of_string cs)
          else if c = CHR ''+'' then unsigned_of_string cs
          else unsigned_of_string (c # cs))"

fun py_int :: "pyval \<Rightarrow> int result" where
  "py_int (PInt n) = Inr n"
| "py_int (PBool b) = Inr (if b then 1 else 0)"
| "py_int (PStr s) = (case int_of_string s of None \<Rightarrow> Inl ValueError | Some n \<Rightarrow> Inr n)"
| "py_int _ = Inl TypeError"

text \<open>
  \<^verbatim>\<open>'%s' % x\<close>: a string as it is, an integer in decimal. The translator formats a
  port only after \<^verbatim>\<open>int(port)\<close> has succeeded, so a list, a mapping or null never
  reaches this function; their rendering is not modelled.
\<close>

definition digit_char :: "nat \<Rightarrow> char" where
  "digit_char d = char_of (48 + d)"

fun decimal :: "nat \<Rightarrow> string" where
  "decimal n = (if 10 \<le> n then decimal (n div 10) @ [digit_char (n mod 10)] else [digit_char n])"

definition decimal_int :: "int \<Rightarrow> string" where
  "decimal_int i = (if 0 \<le> i then decimal (nat i) else CHR ''-'' # decimal (nat (- i)))"

fun py_str :: "pyval \<Rightarrow> string" where
  "py_str (PStr s) = s"
| "py_str (PInt n) = decimal_int n"
| "py_str (PBool b) = (if b then ''True'' else ''False'')"
| "py_str PNone = ''None''"
| "py_str (PList xs) = []"
| "py_str (PDict d) = []"

text \<open>\<^verbatim>\<open>s.upper()\<close> on ASCII letters.\<close>

definition upper_char :: "char \<Rightarrow> char" where
  "upper_char c = (let n = (of_char c :: nat) in if 97 \<le> n \<and> n \<le> 122 then char_of (n - 32) else c)"

definition py_upper :: "string \<Rightarrow> string" where
  "py_upper s = map upper_char s"

section \<open>Port resolver\<close>

text \<open>
  \<^verbatim>\<open>_get_service_ports\<close>. A declaration is first split at \<^verbatim>\<open>/\<close> into port and
  protocol, then (for \<^verbatim>\<open>ports\<close> only) at \<^verbatim>\<open>:\<close>, where the host part is dropped.
  \<^verbatim>\<open>_append_port\<close> stores the protocol as it was written and upper-cases it in the
  name only; \<^verbatim>\<open>_port_in_list\<close> compares with the protocol as written.
  \<^verbatim>\<open>int(port)\<close> is evaluated by the membership test when the list is not empty and
  by the construction of the descriptor otherwise, so a port that is no number raises in
  both cases.
\<close>

definition split_protocol :: "pyval \<Rightarrow> (pyval \<times> string) result" where
  "split_protocol port =
     (case port of
        PStr s \<Rightarrow>
          if CHR ''/'' \<in> set s
          then bnd (unpack2 (py_split (CHR ''/'') s)) (\<lambda>(p, protocol). Inr (PStr p, protocol))
          else Inr (port, ''TCP'')
      | _ \<Rightarrow> Inr (port, ''TCP''))"

definition split_host :: "pyval \<Rightarrow> pyval result" where
  "split_host port =
     (case port of
        PStr s \<Rightarrow>
          if CHR '':'' \<in> set s
          then bnd (unpack2 (py_split (CHR '':'') s)) (\<lambda>(host, p). Inr (PStr p))
          else Inr port
      | _ \<Rightarrow> Inr port)"

definition port_in_list :: "pyval list \<Rightarrow> int \<Rightarrow> string \<Rightarrow> bool" where
  "port_in_list ports n protocol =
     (filter (\<lambda>p. py_getitem p ''port'' = Inr (PInt n)
                 \<and> py_getitem p ''protocol'' = Inr (PStr protocol)) ports \<noteq> [])"

definition port_descriptor :: "int \<Rightarrow> string \<Rightarrow> string \<Rightarrow> pyval" where
  "port_descriptor n protocol name =
     PDict [(''port'', PInt n), (''targetPort'', PInt n),
            (''protocol'', PStr protocol), (''name'', PStr name)]"

definition append_port :: "pyval list \<Rightarrow> pyval \<Rightarrow> string \<Rightarrow> pyval list result" where
  "append_port ports port protocol =
     bnd (py_int port) (\<lambda>n.
       if port_in_list ports n protocol then Inr ports
       else Inr (ports @ [port_descriptor n protocol
                            (''port-'' @ py_str port @ ''-'' @ py_upper protocol)]))"

definition ports_step :: "pyval list \<Rightarrow> pyval \<Rightarrow> pyval list result" where
  "ports_step ports port =
     bnd (split_protocol port) (\<lambda>(port, protocol).
     bnd (split_host port) (\<lambda>port.
     append_port ports port protocol))"

definition expose_step :: "pyval list \<Rightarrow> pyval \<Rightarrow> pyval list result" where
  "expose_step ports port =
     bnd (split_protocol port) (\<lambda>(port, protocol).
     append_port ports port protocol)"

definition get_service_ports :: "pyval \<Rightarrow> pyval list result" where
  "get_service_ports service =
     bnd (py_get_default service ''ports'' (PList [])) (\<lambda>ps.
     bnd (py_iter ps) (\<lambda>ps.
     bnd (for_each ports_step ps []) (\<lambda>ports.
     bnd (py_get_default service ''expose'' (PList [])) (\<lambda>es.
     bnd (py_iter es) (\<lambda>es.
     for_each expose_step es ports)))))"

section \<open>Service generator\<close>

text \<open>The translator object: \<^verbatim>\<open>self._services\<close>, \<^verbatim>\<open>self._project_name\<close>,
  \<^verbatim>\<open>self._volumes\<close>.\<close>

record deployment =
  u_services :: pyval
  u_project_name :: pyval
  u_volumes :: pyval

text \<open>
  \<^verbatim>\<open>_create_service\<close>: an empty mapping unless the state is \<^verbatim>\<open>present\<close> and the
  service has ports. The loop over the ports sets the type \<^verbatim>\<open>LoadBalancer\<close> at the
  first one whose \<^verbatim>\<open>port\<close> and \<^verbatim>\<open>targetPort\<close> differ.
\<close>

definition create_service :: "pyval \<Rightarrow> string \<Rightarrow> pyval \<Rightarrow> pyval result" where
  "create_service project_name name service =
     bnd (py_get_default service ''k8s'' (PDict [])) (\<lambda>k8s.
     bnd (py_get k8s ''state'') (\<lambda>st.
     let state = (if truthy st then st else PStr ''present'') in
     if state = PStr ''present'' then
       bnd (get_service_ports service) (\<lambda>ports.
         if ports \<noteq> [] then
           let labels = PDict [(''app'', project_name), (''service'', PStr name)];
               spec = [(''selector'', labels), (''ports'', PList ports)];
               spec = (if filter (\<lambda>p. py_getitem p ''port'' \<noteq> py_getitem p ''targetPort'') ports \<noteq> []
                       then dict_set spec ''type'' (PStr ''LoadBalancer'') else spec)
           in Inr (PDict [(''apiVersion'', PStr ''v1''),
                          (''kind'', PStr ''Service''),
                          (''metadata'', PDict [(''name'', PStr name), (''labels'', labels)]),
                          (''spec'', PDict spec)])
         else Inr (PDict []))
     else Inr (PDict [])))"

text \<open>One \<^verbatim>\<open>links\<close> entry: \<^verbatim>\<open>service:alias\<close> adds a resource named \<^verbatim>\<open>alias\<close> when
  the service exists (and its resource is not empty).\<close>

definition link_step :: "pyval \<Rightarrow> pyval \<Rightarrow> pyval list \<Rightarrow> pyval \<Rightarrow> pyval list result" where
  "link_step project_name services templates link =
     bnd (py_in '':'' link) (\<lambda>has_colon.
       if has_colon then
         (case link of
            PStr s \<Rightarrow>
              bnd (unpack2 (py_split (CHR '':'') s)) (\<lambda>(service_name, alias).
              bnd (py_get services service_name) (\<lambda>alias_config.
                if truthy alias_config then
                  bnd (create_service project_name alias alias_config) (\<lambda>new_service.
                    if truthy new_service then Inr (templates @ [new_service])
                    else Inr templates)
                else Inr templates))
          | _ \<Rightarrow> Inl AttributeError)
       else Inr templates)"

definition service_step ::
  "pyval \<Rightarrow> pyval \<Rightarrow> pyval list \<Rightarrow> string \<times> pyval \<Rightarrow> pyval list result" where
  "service_step project_name services templates item =
     (case item of (name, service) \<Rightarrow>
        bnd (create_service project_name name service) (\<lambda>template.
        let templates = (if truthy template then templates @ [template] else templates) in
        bnd (py_get service ''links'') (\<lambda>links.
          if truthy links then
            bnd (py_getitem service ''links'') (\<lambda>links.
            bnd (py_iter links) (\<lambda>links.
            for_each (link_step project_name services) links templates))
          else Inr templates)))"

definition services :: "deployment \<Rightarrow> pyval list result" where
  "services self =
     (if truthy (u_services self) then
        bnd (py_items (u_services self)) (\<lambda>items.
        for_each (service_step (u_project_name self) (u_services self)) items [])
      else Inr [])"

definition service_task :: "pyval \<Rightarrow> pyval" where
  "service_task template =
     PDict [(''name'', PStr ''Create service''),
            (''k8s_v1_service'', PDict [(''state'', PStr ''present''),
                                        (''service_definition'', template)])]"

definition service_tasks :: "deployment \<Rightarrow> pyval list result" where
  "service_tasks self = bnd (services self) (\<lambda>templates. Inr (map service_task templates))"

section \<open>Volume translator\<close>

text \<open>
  \<^verbatim>\<open>_kube_volumes(self, docker_volumes)\<close>, on a list of declaration strings. The local
  variable \<^verbatim>\<open>name\<close> is assigned only when the destination is not empty and keeps its
  value from one declaration to the next; reading it before any assignment is an
  \<^verbatim>\<open>UnboundLocalError\<close>, so the loop carries it as an option.
\<close>

definition DOCKER_VOL_PERMISSIONS :: "string list" where
  "DOCKER_VOL_PERMISSIONS = [''rw'', ''ro'', ''z'', ''Z'']"

text \<open>Lines 91 to 104: source, destination and permissions of a declaration, each
  \<^verbatim>\<open>None\<close> unless assigned.\<close>

definition parse_volume :: "string \<Rightarrow> string option \<times> string option \<times> string option" where
  "parse_volume vol =
     (if CHR '':'' \<in> set vol then
        (let pieces = py_split (CHR '':'') vol in
         if length pieces = 3 then (Some (pieces ! 0), Some (pieces ! 1), Some (pieces ! 2))
         else if length pieces = 2 then
           (if pieces ! 1 \<in> set DOCKER_VOL_PERMISSIONS
            then (None, Some (pieces ! 0), Some (pieces ! 1))
            else (Some (pieces ! 0), Some (pieces ! 1), None))
         else (None, None, None))
      else (None, Some vol, None))"

text \<open>\<^verbatim>\<open>re.sub(r'\/', '-', destination)\<close>, then \<^verbatim>\<open>re.sub(r'-', '', name, 1)\<close>: every
  slash becomes a dash and the first dash is removed.\<close>

definition slugify :: "string \<Rightarrow> string" where
  "slugify destination =
     remove1 (CHR ''-'') (map (\<lambda>c. if c = CHR ''/'' then CHR ''-'' else c) destination)"

definition opt_truthy :: "string option \<Rightarrow> bool" where
  "opt_truthy x = (case x of None \<Rightarrow> False | Some s \<Rightarrow> s \<noteq> [])"

definition opt_val :: "string option \<Rightarrow> pyval" where
  "opt_val x = (case x of None \<Rightarrow> PNone | Some s \<Rightarrow> PStr s)"

definition host_path_volume :: "string \<Rightarrow> string \<Rightarrow> pyval" where
  "host_path_volume name source =
     PDict [(''name'', PStr name), (''hostPath'', PDict [(''path'', PStr source)])]"

definition empty_dir_volume :: "string \<Rightarrow> pyval" where
  "empty_dir_volume name =
     PDict [(''name'', PStr name), (''emptyDir'', PDict [(''medium'', PStr [])])]"

definition volume_mount :: "string option \<Rightarrow> string \<Rightarrow> string option \<Rightarrow> pyval" where
  "volume_mount destination name permissions =
     PDict [(''mountPath'', opt_val destination), (''name'', PStr name),
            (''readOnly'', PBool (permissions = Some ''ro''))]"

definition volume_step ::
  "pyval list \<times> pyval list \<times> string option \<Rightarrow> string \<Rightarrow>
   (pyval list \<times> pyval list \<times> string option) result" where
  "volume_step st vol =
     (case st of (volumes, volume_mounts, name) \<Rightarrow>
      case parse_volume vol of (source, destination, permissions) \<Rightarrow>
      let name = (if opt_truthy destination then Some (slugify (the destination)) else name) in
      if opt_truthy source then
        (if take 1 (the source) = ''$'' then Inr (volumes, volume_mounts, name)
         else if take 1 (the source) \<in> set [''~'', ''.'', ''/''] then
           (case name of
              None \<Rightarrow> Inl UnboundLocalError
            | Some n \<Rightarrow>
                Inr (volumes @ [host_path_volume n (the source)],
                     volume_mounts @ [volume_mount destination n permissions], name))
         else Inr (volumes, volume_mounts, source))
      else
        (case name of
           None \<Rightarrow> Inl UnboundLocalError
         | Some n \<Rightarrow>
             Inr (volumes @ [empty_dir_volume n],
                  volume_mounts @ [volume_mount destination n permissions], name)))"

definition kube_volumes :: "pyval \<Rightarrow> string list \<Rightarrow> (pyval list \<times> pyval list) result" where
  "kube_volumes self docker_volumes =
     bnd (for_each volume_step docker_volumes ([], [], None))
         (\<lambda>(volumes, volume_mounts, name). Inr (volumes, volume_mounts))"

text \<open>
  The workload generator calls \<^verbatim>\<open>_kube_volumes(value)\<close>: one argument for a function
  of two positional parameters. Python raises a \<^verbatim>\<open>TypeError\<close> at the call, before the
  body runs.
\<close>

definition kube_volumes_call1 :: "pyval \<Rightarrow> (pyval list \<times> pyval list) result" where
  "kube_volumes_call1 value = Inl TypeError"

section \<open>Container ports\<close>

text \<open>\<^verbatim>\<open>_add_container_ports\<close>: the entry stores the protocol in upper case, the
  membership test compares with the protocol as written.\<close>

definition port_exists :: "pyval list \<Rightarrow> int \<Rightarrow> string \<Rightarrow> bool" where
  "port_exists existing_ports n protocol =
     (filter (\<lambda>p. py_getitem p ''containerPort'' = Inr (PInt n)
                 \<and> py_getitem p ''protocol'' = Inr (PStr protocol)) existing_ports \<noteq> [])"

definition container_port_step :: "pyval list \<Rightarrow> pyval \<Rightarrow> pyval list result" where
  "container_port_step existing_ports port =
     bnd (split_protocol port) (\<lambda>(port, protocol).
     bnd (split_host port) (\<lambda>port.
     bnd (py_int port) (\<lambda>n.
       if port_exists existing_ports n protocol then Inr existing_ports
       else Inr (existing_ports @
                 [PDict [(''containerPort'', PInt n), (''protocol'', PStr (py_upper protocol))]]))))"

definition add_container_ports :: "pyval \<Rightarrow> pyval \<Rightarrow> pyval result" where
  "add_container_ports ports existing_ports =
     (case existing_ports of
        PList eps \<Rightarrow>
          bnd (py_iter ports) (\<lambda>ps.
          bnd (for_each container_port_step ps eps) (\<lambda>eps. Inr (PList eps)))
      | _ \<Rightarrow> Inl AttributeError)"

section \<open>Environment normalizer\<close>

text \<open>
  \<^verbatim>\<open>_expand_env_vars\<close>: a mapping gives one pair per key, a list one pair per entry
  (\<^verbatim>\<open>evar.split('=', 1)\<close> has one or two parts), anything else the empty list. An entry
  of the list that is no string has no \<^verbatim>\<open>split\<close> method.
\<close>

definition env_pair :: "string \<Rightarrow> pyval \<Rightarrow> pyval" where
  "env_pair n v = PDict [(''name'', PStr n), (''value'', v)]"

fun expand_evar :: "pyval list \<Rightarrow> pyval \<Rightarrow> pyval list result" where
  "expand_evar results (PStr evar) =
     (let parts = py_split1 (CHR ''='') evar in
      if length parts = 1 then Inr (results @ [env_pair (parts ! 0) PNone])
      else if length parts = 2 then Inr (results @ [env_pair (parts ! 0) (PStr (parts ! 1))])
      else Inr results)"
| "expand_evar results _ = Inl AttributeError"

fun expand_env_vars :: "pyval \<Rightarrow> pyval list result" where
  "expand_env_vars (PDict d) = Inr (map (\<lambda>kv. env_pair (fst kv) (snd kv)) d)"
| "expand_env_vars (PList evars) = for_each expand_evar evars []"
| "expand_env_vars _ = Inr []"

text \<open>What the specification says of one entry of the list form: \<^verbatim>\<open>KEY=VALUE\<close> is split
  at its first \<^verbatim>\<open>=\<close>, a bare \<^verbatim>\<open>KEY\<close> has the value null.\<close>

definition spec_env_entry :: "string \<Rightarrow> pyval" where
  "spec_env_entry e =
     (if CHR ''='' \<in> set e
      then env_pair (takeWhile (\<lambda>c. c \<noteq> CHR ''='') e)
                    (PStr (tl (dropWhile (\<lambda>c. c \<noteq> CHR ''='') e)))
      else env_pair e PNone)"

section \<open>Workload generator\<close>

text \<open>
  \<^verbatim>\<open>IGNORE_DIRECTIVES\<close>. The source has no comma between \<^verbatim>\<open>'ipv6_address'\<close> and the
  \<^verbatim>\<open>'labels'\<close> after it, so Python joins the two literals into one entry.
\<close>

definition IGNORE_DIRECTIVES :: "string list" where
  "IGNORE_DIRECTIVES =
     [''build'', ''expose'', ''labels'', ''links'', ''cgroup_parent'',
      ''dev_options'', ''devices'', ''depends_on'', ''dns'', ''dns_search'',
      ''env_file'', ''user'', ''extends'', ''extrenal_links'', ''extra_hosts'',
      ''ipv4_address'', ''ipv6_addresslabels'', ''links'', ''logging'', ''log_driver'',
      ''lop_opt'', ''net'', ''network_mode'', ''networks'', ''restart'',
      ''pid'', ''security_opt'', ''stop_signal'', ''ulimits'', ''cpu_shares'',
      ''cpu_quota'', ''cpuset'', ''domainname'', ''hostname'', ''ipc'',
      ''mac_address'', ''mem_limit'', ''memswap_limit'', ''shm_size'', ''tmpfs'',
      ''options'', ''volume_driver'', ''volumes_from'']"

definition DOCKER_TO_KUBE_CAPABILITY_MAPPING :: "(string \<times> string) list" where
  "DOCKER_TO_KUBE_CAPABILITY_MAPPING =
     [(''SETPCAP'', ''CAP_SETPCAP''),
      (''SYS_MODULE'', ''CAP_SYS_MODULE''),
      (''SYS_RAWIO'', ''CAP_SYS_RAWIO''),
      (''SYS_PACCT'', ''CAP_SYS_PACCT''),
      (''SYS_ADMIN'', ''CAP_SYS_ADMIN''),
      (''SYS_NICE'', ''CAP_SYS_NICE''),
      (''SYS_RESOURCE'', ''CAP_SYS_RESOURCE''),
      (''SYS_TIME'', ''CAP_SYS_TIME''),
      (''SYS_TTY_CONFIG'', ''CAP_SYS_TTY_CONFIG''),
      (''MKNOD'', ''CAP_MKNOD''),
      (''AUDIT_WRITE'', ''CAP_AUDIT_WRITE''),
      (''AUDIT_CONTROL'', ''CAP_AUDIT_CONTROL''),
      (''MAC_OVERRIDE'', ''CAP_MAC_OVERRIDE''),
      (''MAC_ADMIN'', ''CAP_MAC_ADMIN''),
      (''NET_ADMIN'', ''CAP_NET_ADMIN''),
      (''SYSLOG'', ''CAP_SYSLOG''),
      (''CHOWN'', ''CAP_CHOWN''),
      (''NET_RAW'', ''CAP_NET_RAW''),
      (''DAC_OVERRIDE'', ''CAP_DAC_OVERRIDE''),
      (''FOWNER'', ''CAP_FOWNER''),
      (''DAC_READ_SEARCH'', ''CAP_DAC_READ_SEARCH''),
      (''FSETID'', ''CAP_FSETID''),
      (''KILL'', ''CAP_KILL''),
      (''SETGID'', ''CAP_SETGID''),
      (''SETUID'', ''CAP_SETUID''),
      (''LINUX_IMMUTABLE'', ''CAP_LINUX_IMMUTABLE''),
      (''NET_BIND_SERVICE'', ''CAP_NET_BIND_SERVICE''),
      (''NET_BROADCAST'', ''CAP_NET_BROADCAST''),
      (''IPC_LOCK'', ''CAP_IPC_LOCK''),
      (''IPC_OWNER'', ''CAP_IPC_OWNER''),
      (''SYS_CHROOT'', ''CAP_SYS_CHROOT''),
      (''SYS_PTRACE'', ''CAP_SYS_PTRACE''),
      (''SYS_BOOT'', ''CAP_SYS_BOOT''),
      (''LEASE'', ''CAP_LEASE''),
      (''SETFCAP'', ''CAP_SETFCAP''),
      (''WAKE_ALARM'', ''CAP_WAKE_ALARM''),
      (''BLOCK_SUSPEND'', ''CAP_BLOCK_SUSPEND'')]"

text \<open>\<^verbatim>\<open>self.DOCKER_TO_KUBE_CAPABILITY_MAPPING[cap]\<close>: no guard, a name that is not in the
  table is a \<^verbatim>\<open>KeyError\<close>; a list or a mapping cannot be hashed.\<close>

fun capability_lookup :: "pyval \<Rightarrow> pyval result" where
  "capability_lookup (PStr cap) =
     (case map_of DOCKER_TO_KUBE_CAPABILITY_MAPPING cap of
        None \<Rightarrow> Inl KeyError
      | Some kube \<Rightarrow> Inr (PStr kube))"
| "capability_lookup (PList xs) = Inl TypeError"
| "capability_lookup (PDict d) = Inl TypeError"
| "capability_lookup _ = Inl KeyError"

text \<open>\<^verbatim>\<open>container['securityContext'][k] = v\<close>.\<close>

definition set_security_context :: "pyval \<Rightarrow> string \<Rightarrow> pyval \<Rightarrow> pyval result" where
  "set_security_context container k v =
     bnd (py_getitem container ''securityContext'') (\<lambda>sc.
     bnd (py_setitem sc k v) (\<lambda>sc.
     py_setitem container ''securityContext'' sc))"

text \<open>Lines 325 and 326 (and 332, 333): the capability lists are created on first use.\<close>

definition ensure_capabilities :: "pyval \<Rightarrow> pyval result" where
  "ensure_capabilities container =
     bnd (py_getitem container ''securityContext'') (\<lambda>sc.
     bnd (py_get sc ''Capabilities'') (\<lambda>caps.
       if \<not> truthy caps
       then set_security_context container ''Capabilities''
              (PDict [(''add'', PList []), (''drop'', PList [])])
       else Inr container))"

text \<open>One capability name, appended to the list \<open>which\<close> (\<^verbatim>\<open>add\<close> or \<^verbatim>\<open>drop\<close>).\<close>

definition capability_step :: "string \<Rightarrow> pyval \<Rightarrow> pyval \<Rightarrow> pyval result" where
  "capability_step which container cap =
     bnd (capability_lookup cap) (\<lambda>kube.
       if truthy kube then
         bnd (py_getitem container ''securityContext'') (\<lambda>sc.
         bnd (py_getitem sc ''Capabilities'') (\<lambda>caps.
         bnd (py_getitem caps which) (\<lambda>lst.
         bnd (py_append lst kube) (\<lambda>lst.
         bnd (py_setitem caps which lst) (\<lambda>caps.
         set_security_context container ''Capabilities'' caps)))))
       else Inr container)"

text \<open>\<^verbatim>\<open>command\<close> and \<^verbatim>\<open>entrypoint\<close>: a string is tokenized by \<^verbatim>\<open>shlex.split\<close>, a
  function of the Python library that the model takes as a parameter.\<close>

definition tokenize :: "(string \<Rightarrow> string list result) \<Rightarrow> pyval \<Rightarrow> pyval result" where
  "tokenize shlex_split value =
     (case value of
        PStr s \<Rightarrow> bnd (shlex_split s) (\<lambda>ws. Inr (PList (map PStr ws)))
      | _ \<Rightarrow> Inr value)"

text \<open>The body of the loop over \<^verbatim>\<open>service.items()\<close> in \<^verbatim>\<open>_service_to_container\<close>; the
  state is the container and the pod-level list of volumes.\<close>

definition directive_step ::
  "(string \<Rightarrow> string list result) \<Rightarrow> pyval \<times> pyval list \<Rightarrow> string \<times> pyval \<Rightarrow>
   (pyval \<times> pyval list) result" where
  "directive_step shlex_split st item =
     (case st of (container, volumes) \<Rightarrow>
      case item of (key, value) \<Rightarrow>
      if key \<in> set IGNORE_DIRECTIVES then Inr (container, volumes)
      else if key = ''cap_add'' then
        bnd (ensure_capabilities container) (\<lambda>container.
        bnd (py_iter value) (\<lambda>caps.
        bnd (for_each (capability_step ''add'') caps container) (\<lambda>container.
        Inr (container, volumes))))
      else if key = ''cap_drop'' then
        bnd (ensure_capabilities container) (\<lambda>container.
        bnd (py_iter value) (\<lambda>caps.
        bnd (for_each (capability_step ''drop'') caps container) (\<lambda>container.
        Inr (container, volumes))))
      else if key = ''command'' then
        bnd (tokenize shlex_split value) (\<lambda>args.
        bnd (py_setitem container ''args'' args) (\<lambda>container. Inr (container, volumes)))
      else if key = ''container_name'' then
        bnd (py_setitem container ''name'' value) (\<lambda>container. Inr (container, volumes))
      else if key = ''entrypoint'' then
        bnd (tokenize shlex_split value) (\<lambda>command.
        bnd (py_setitem container ''command'' command) (\<lambda>container. Inr (container, volumes)))
      else if key = ''environment'' then
        bnd (expand_env_vars value) (\<lambda>expanded_vars.
          if expanded_vars \<noteq> [] then
            bnd (py_setitem container ''env'' (PList expanded_vars)) (\<lambda>container.
            Inr (container, volumes))
          else Inr (container, volumes))
      else if key \<in> set [''ports'', ''expose''] then
        bnd (py_get container ''ports'') (\<lambda>ports.
        bnd (if \<not> truthy ports then py_setitem container ''ports'' (PList [])
             else Inr container) (\<lambda>container.
        bnd (py_getitem container ''ports'') (\<lambda>existing_ports.
        bnd (add_container_ports value existing_ports) (\<lambda>existing_ports.
        bnd (py_setitem container ''ports'' existing_ports) (\<lambda>container.
        Inr (container, volumes))))))
      else if key = ''privileged'' then
        bnd (set_security_context container ''privileged'' value) (\<lambda>container.
        Inr (container, volumes))
      else if key = ''read_only'' then
        bnd (set_security_context container ''readOnlyRootFileSystem'' value) (\<lambda>container.
        Inr (container, volumes))
      else if key = ''stdin_open'' then
        bnd (py_setitem container ''stdin'' value) (\<lambda>container. Inr (container, volumes))
      else if key = ''volumes'' then
        bnd (kube_volumes_call1 value) (\<lambda>(vols, vol_mounts).
        bnd (if vol_mounts \<noteq> [] then py_setitem container ''volumeMounts'' (PList vol_mounts)
             else Inr container) (\<lambda>container.
        Inr (container, if vols \<noteq> [] then volumes @ vols else volumes)))
      else if key = ''working_dir'' then
        bnd (py_setitem container ''workingDir'' value) (\<lambda>container. Inr (container, volumes))
      else
        bnd (py_setitem container key value) (\<lambda>container. Inr (container, volumes)))"

text \<open>The body of the loop over the extension block \<^verbatim>\<open>service['k8s'].items()\<close>; the
  state is the container and the \<^verbatim>\<open>pod\<close> mapping.\<close>

definition k8s_step ::
  "pyval \<times> (string \<times> pyval) list \<Rightarrow> string \<times> pyval \<Rightarrow>
   (pyval \<times> (string \<times> pyval) list) result" where
  "k8s_step st item =
     (case st of (container, pod) \<Rightarrow>
      case item of (key, value) \<Rightarrow>
      if key = ''seLinuxOptions'' then
        bnd (set_security_context container ''seLinuxOptions'' value) (\<lambda>container.
        Inr (container, pod))
      else if key = ''runAsNonRoot'' then
        bnd (set_security_context container ''runAsNonRoot'' value) (\<lambda>container.
        Inr (container, pod))
      else if key = ''runAsUser'' then
        bnd (set_security_context container ''runAsUser'' value) (\<lambda>container.
        Inr (container, pod))
      else if key = ''replicas'' then Inr (container, dict_set pod ''replicas'' value)
      else if key = ''state'' then Inr (container, dict_set pod ''state'' value)
      else Inr (container, pod))"

definition new_container :: "string \<Rightarrow> pyval" where
  "new_container name =
     PDict [(''name'', PStr name), (''securityContext'', PDict []),
            (''state'', PStr ''present'')]"

definition service_to_container ::
  "(string \<Rightarrow> string list result) \<Rightarrow> string \<Rightarrow> pyval \<Rightarrow>
   (pyval \<times> pyval list \<times> (string \<times> pyval) list) result" where
  "service_to_container shlex_split name service =
     bnd (py_items service) (\<lambda>items.
     bnd (for_each (directive_step shlex_split) items (new_container name, []))
       (\<lambda>(container, volumes).
     bnd (py_get service ''k8s'') (\<lambda>k8s.
       if truthy k8s then
         bnd (py_getitem service ''k8s'') (\<lambda>k8s.
         bnd (py_items k8s) (\<lambda>k8s_items.
         bnd (for_each k8s_step k8s_items (container, [])) (\<lambda>(container, pod).
         Inr (container, volumes, pod))))
       else Inr (container, volumes, []))))"

text \<open>
  The body of the loop of \<^verbatim>\<open>deployments\<close>. \<^verbatim>\<open>pod.pop('state')\<close> removes the key; the
  loop over \<^verbatim>\<open>pod.items()\<close> copies \<^verbatim>\<open>replicas\<close>, when the pod has it, to the spec of
  the workload.
\<close>

definition deployment_template ::
  "pyval \<Rightarrow> string \<Rightarrow> pyval \<Rightarrow> pyval list \<Rightarrow> (string \<times> pyval) list \<Rightarrow> pyval" where
  "deployment_template project_name name container volumes pod =
     (let labels = PDict [(''app'', project_name), (''service'', PStr name)];
          pod_spec = [(''containers'', PList [container])];
          pod_spec = (if volumes \<noteq> [] then dict_set pod_spec ''volumes'' (PList volumes)
                      else pod_spec);
          spec = [(''template'',
                   PDict [(''metadata'', PDict [(''labels'', labels)]),
                          (''spec'', PDict pod_spec),
                          (''replicas'', PInt 1),
                          (''strategy'', PDict [(''type'', PStr ''RollingUpate'')])])];
          spec = (case map_of pod ''replicas'' of
                    None \<Rightarrow> spec
                  | Some value \<Rightarrow> dict_set spec ''replicas'' value)
      in PDict [(''apiVersion'', PStr ''extensions/v1beta1''),
                (''kind'', PStr ''Deployment''),
                (''metadata'', PDict [(''name'', PStr name), (''labels'', labels),
                                      (''namespace'', project_name)]),
                (''spec'', PDict spec)])"

definition deployment_step ::
  "(string \<Rightarrow> string list result) \<Rightarrow> pyval \<Rightarrow> pyval list \<Rightarrow> string \<times> pyval \<Rightarrow>
   pyval list result" where
  "deployment_step shlex_split project_name templates item =
     (case item of (name, service_config) \<Rightarrow>
      bnd (service_to_container shlex_split name service_config)
        (\<lambda>(container, volumes, pod).
          let st = (case map_of pod ''state'' of None \<Rightarrow> PNone | Some v \<Rightarrow> v);
              state = (if truthy st then st else PStr ''present'');
              pod = (if truthy st then filter (\<lambda>kv. fst kv \<noteq> ''state'') pod else pod)
          in if state = PStr ''present''
             then Inr (templates @ [deployment_template project_name name container volumes pod])
             else Inr templates))"

definition deployments :: "(string \<Rightarrow> string list result) \<Rightarrow> deployment \<Rightarrow> pyval list result" where
  "deployments shlex_split self =
     (if truthy (u_services self) then
        bnd (py_items (u_services self)) (\<lambda>items.
        for_each (deployment_step shlex_split (u_project_name self)) items [])
      else Inr [])"

definition deployment_task :: "pyval \<Rightarrow> pyval" where
  "deployment_task template =
     PDict [(''name'', PStr ''Create deployment''),
            (''k8s_v1_deployment'', PDict [(''state'', PStr ''present''),
                                           (''service_definition'', template)])]"

definition deployment_tasks ::
  "(string \<Rightarrow> string list result) \<Rightarrow> deployment \<Rightarrow> pyval list result" where
  "deployment_tasks shlex_split self =
     bnd (deployments shlex_split self) (\<lambda>templates. Inr (map deployment_task templates))"

section \<open>Storage claim generator\<close>

text \<open>\<^verbatim>\<open>x[k1][k2] = v\<close> and \<^verbatim>\<open>x[k1][k2][k3] = v\<close>: the inner objects are read with
  \<^verbatim>\<open>x[k1]\<close>, \<^verbatim>\<open>x[k1][k2]\<close>, which raise when a key is missing.\<close>

definition py_setitem2 :: "pyval \<Rightarrow> string \<Rightarrow> string \<Rightarrow> pyval \<Rightarrow> pyval result" where
  "py_setitem2 x k1 k2 v =
     bnd (py_getitem x k1) (\<lambda>inner.
     bnd (py_setitem inner k2 v) (\<lambda>inner.
     py_setitem x k1 inner))"

definition py_setitem3 ::
  "pyval \<Rightarrow> string \<Rightarrow> string \<Rightarrow> string \<Rightarrow> pyval \<Rightarrow> pyval result" where
  "py_setitem3 x k1 k2 k3 v =
     bnd (py_getitem x k1) (\<lambda>inner.
     bnd (py_setitem2 inner k2 k3 v) (\<lambda>inner.
     py_setitem x k1 inner))"

text \<open>\<^verbatim>\<open>if not x[k1].get(k2): x[k1][k2] = {}\<close>.\<close>

definition ensure_dict :: "pyval \<Rightarrow> string \<Rightarrow> string \<Rightarrow> pyval result" where
  "ensure_dict x k1 k2 =
     bnd (py_getitem x k1) (\<lambda>inner.
     bnd (py_get inner k2) (\<lambda>cur.
       if \<not> truthy cur then py_setitem2 x k1 k2 (PDict []) else Inr x))"

text \<open>
  \<^verbatim>\<open>_volume_to_pvc\<close>. For the type \<^verbatim>\<open>persistent\<close> the template gets an empty
  \<^verbatim>\<open>spec\<close> (line 461) and the next statement reads
  \<^verbatim>\<open>template['spec']['requested']\<close> (line 462). Any other type, \<^verbatim>\<open>volatile\<close>
  included, returns \<^verbatim>\<open>None\<close>.
\<close>

definition pvc_selector_part :: "pyval \<Rightarrow> pyval \<Rightarrow> string \<Rightarrow> string \<Rightarrow> pyval \<Rightarrow> pyval result" where
  "pvc_selector_part claim selector claim_key out_key template =
     bnd (py_get selector claim_key) (\<lambda>m.
       if truthy m then
         bnd (ensure_dict template ''spec'' ''selector'') (\<lambda>template.
         bnd (py_getitem claim claim_key) (\<lambda>v.
         py_setitem3 template ''spec'' ''selector'' out_key v))
       else Inr template)"

definition volume_to_pvc :: "pyval \<Rightarrow> pyval result" where
  "volume_to_pvc claim =
     bnd (py_get claim ''type'') (\<lambda>ty.
     if ty = PStr ''persistent'' then
       bnd (py_getitem claim ''claim_name'') (\<lambda>claim_name.
       let template = PDict [(''apiVersion'', PStr ''v1''),
                             (''kind'', PStr ''PersistentVolumeClaim''),
                             (''metadata'', PDict [(''name'', claim_name)]),
                             (''spec'', PDict [])] in
       bnd (py_setitem3 template ''spec'' ''requested'' ''storage'' (PStr ''1Gi'')) (\<lambda>template.
       bnd (py_get claim ''access_modes'') (\<lambda>access_modes.
       bnd (if truthy access_modes
            then py_setitem2 template ''spec'' ''accessModes'' access_modes
            else Inr template) (\<lambda>template.
       bnd (py_get claim ''storage'') (\<lambda>storage.
       bnd (if truthy storage
            then py_setitem3 template ''spec'' ''requested'' ''storage'' storage
            else Inr template) (\<lambda>template.
       bnd (py_get claim ''storage_class'') (\<lambda>storage_class.
       bnd (if truthy storage_class
            then bnd (ensure_dict template ''metadata'' ''annotations'') (\<lambda>template.
                 py_setitem3 template ''metadata'' ''annotations'' ''storageClass'' storage_class)
            else Inr template) (\<lambda>template.
       bnd (py_get claim ''selector'') (\<lambda>selector.
         if truthy selector then
           bnd (pvc_selector_part claim selector ''match_labels'' ''matchLabels'' template)
             (\<lambda>template.
           pvc_selector_part claim selector ''match_expressions'' ''matchExpressions'' template)
         else Inr template)))))))))
     else Inr PNone)"

text \<open>The body of the loop of \<^verbatim>\<open>persistent_volume_claims\<close>: what \<^verbatim>\<open>_volume_to_pvc\<close>
  returns is appended without a test.\<close>

definition pvc_step :: "pyval list \<Rightarrow> string \<times> pyval \<Rightarrow> pyval list result" where
  "pvc_step templates item =
     (case item of (volname, vol_config) \<Rightarrow>
      bnd (py_in ''k8s'' vol_config) (\<lambda>has_k8s.
        if has_k8s then
          bnd (py_getitem vol_config ''k8s'') (\<lambda>claim.
          bnd (volume_to_pvc claim) (\<lambda>volume.
          Inr (templates @ [volume])))
        else Inr templates))"

definition persistent_volume_claims :: "deployment \<Rightarrow> pyval list result" where
  "persistent_volume_claims self =
     (if truthy (u_volumes self) then
        bnd (py_items (u_volumes self)) (\<lambda>items. for_each pvc_step items [])
      else Inr [])"

section \<open>The workload generator on a heap\<close>

text \<open>
  Python mappings and lists are objects: \<^verbatim>\<open>container[key] = value\<close> stores a reference
  to the object \<^verbatim>\<open>value\<close>, and a later assignment through that reference changes the
  object for every holder. To see what the workload generator does to its input, this
  section runs \<^verbatim>\<open>deployments\<close> on an explicit store. A value is a scalar or the address
  of an object; the store is the list of objects, an address is an index, and a new object
  goes to the end. Strings are immutable, so they are values.
\<close>

type_synonym addr = nat

datatype hval = HNone | HBool bool | HInt int | HStr string | HRef addr

datatype obj = ODict "(string \<times> hval) list" | OList "hval list"

type_synonym heap = "obj list"

definition h_alloc :: "obj \<Rightarrow> heap \<Rightarrow> hval \<times> heap" where
  "h_alloc ob h = (HRef (length h), h @ [ob])"

definition h_obj :: "heap \<Rightarrow> hval \<Rightarrow> obj option" where
  "h_obj h x = (case x of HRef a \<Rightarrow> (if a < length h then Some (h ! a) else None) | _ \<Rightarrow> None)"

text \<open>A configuration tree is put into the store object by object.\<close>

fun alloc_val :: "pyval \<Rightarrow> heap \<Rightarrow> hval \<times> heap"
  and alloc_vals :: "pyval list \<Rightarrow> heap \<Rightarrow> hval list \<times> heap"
  and alloc_items :: "(string \<times> pyval) list \<Rightarrow> heap \<Rightarrow> (string \<times> hval) list \<times> heap"
where
  "alloc_val PNone h = (HNone, h)"
| "alloc_val (PBool b) h = (HBool b, h)"
| "alloc_val (PInt i) h = (HInt i, h)"
| "alloc_val (PStr s) h = (HStr s, h)"
| "alloc_val (PList xs) h = (case alloc_vals xs h of (vs, h') \<Rightarrow> h_alloc (OList vs) h')"
| "alloc_val (PDict d) h = (case alloc_items d h of (kvs, h') \<Rightarrow> h_alloc (ODict kvs) h')"
| "alloc_vals [] h = ([], h)"
| "alloc_vals (x # xs) h =
     (case alloc_val x h of (v, h1) \<Rightarrow>
      case alloc_vals xs h1 of (vs, h2) \<Rightarrow> (v # vs, h2))"
| "alloc_items [] h = ([], h)"
| "alloc_items (kx # d) h =
     (case alloc_val (snd kx) h of (v, h1) \<Rightarrow>
      case alloc_items d h1 of (kvs, h2) \<Rightarrow> ((fst kx, v) # kvs, h2))"

text \<open>The tree that a value stands for in a store, read to a bounded depth; \<open>snapshot\<close>
  reads deep enough for every store without a cycle.\<close>

fun reify :: "nat \<Rightarrow> heap \<Rightarrow> hval \<Rightarrow> pyval option" where
  "reify n h HNone = Some PNone"
| "reify n h (HBool b) = Some (PBool b)"
| "reify n h (HInt i) = Some (PInt i)"
| "reify n h (HStr s) = Some (PStr s)"
| "reify 0 h (HRef a) = None"
| "reify (Suc n) h (HRef a) =
     (if a < length h then
        (case h ! a of
           OList vs \<Rightarrow> map_option PList (those (map (reify n h) vs))
         | ODict kvs \<Rightarrow>
             map_option PDict
               (those (map (\<lambda>kv. map_option (Pair (fst kv)) (reify n h (snd kv))) kvs)))
      else None)"

definition snapshot :: "heap \<Rightarrow> hval \<Rightarrow> pyval option" where
  "snapshot h x = reify (Suc (length h)) h x"

text \<open>What the tests of the code see of a value without following it: its kind.\<close>

definition shallow :: "heap \<Rightarrow> hval \<Rightarrow> pyval" where
  "shallow h x =
     (case x of
        HNone \<Rightarrow> PNone | HBool b \<Rightarrow> PBool b | HInt i \<Rightarrow> PInt i | HStr s \<Rightarrow> PStr s
      | HRef a \<Rightarrow> (case h_obj h x of Some (ODict d) \<Rightarrow> PDict [] | _ \<Rightarrow> PList []))"

text \<open>The operations of the first section, on the store: \<^verbatim>\<open>x.get(k)\<close>, \<^verbatim>\<open>x[k]\<close>,
  \<^verbatim>\<open>x[k] = v\<close>, \<^verbatim>\<open>x.append(v)\<close>, truth, iteration and \<^verbatim>\<open>x.items()\<close>.\<close>

definition h_get :: "heap \<Rightarrow> hval \<Rightarrow> string \<Rightarrow> hval result" where
  "h_get h x k =
     (case h_obj h x of
        Some (ODict d) \<Rightarrow> Inr (case map_of d k of None \<Rightarrow> HNone | Some v \<Rightarrow> v)
      | _ \<Rightarrow> Inl AttributeError)"

definition h_getitem :: "heap \<Rightarrow> hval \<Rightarrow> string \<Rightarrow> hval result" where
  "h_getitem h x k =
     (case h_obj h x of
        Some (ODict d) \<Rightarrow> (case map_of d k of None \<Rightarrow> Inl KeyError | Some v \<Rightarrow> Inr v)
      | _ \<Rightarrow> Inl TypeError)"

definition h_setitem :: "hval \<Rightarrow> string \<Rightarrow> hval \<Rightarrow> heap \<Rightarrow> heap result" where
  "h_setitem x k v h =
     (case x of
        HRef a \<Rightarrow>
          (case h_obj h x of
             Some (ODict d) \<Rightarrow> Inr (h[a := ODict (dict_set d k v)])
           | _ \<Rightarrow> Inl TypeError)
      | _ \<Rightarrow> Inl TypeError)"

definition h_append :: "hval \<Rightarrow> hval \<Rightarrow> heap \<Rightarrow> heap result" where
  "h_append x v h =
     (case x of
        HRef a \<Rightarrow>
          (case h_obj h x of
             Some (OList xs) \<Rightarrow> Inr (h[a := OList (xs @ [v])])
           | _ \<Rightarrow> Inl AttributeError)
      | _ \<Rightarrow> Inl AttributeError)"

definition h_truthy :: "heap \<Rightarrow> hval \<Rightarrow> bool" where
  "h_truthy h x =
     (case x of
        HNone \<Rightarrow> False | HBool b \<Rightarrow> b | HInt i \<Rightarrow> i \<noteq> 0 | HStr s \<Rightarrow> s \<noteq> []
      | HRef a \<Rightarrow>
          (case h_obj h x of
             Some (ODict d) \<Rightarrow> d \<noteq> [] | Some (OList xs) \<Rightarrow> xs \<noteq> [] | None \<Rightarrow> False))"

definition h_iter :: "heap \<Rightarrow> hval \<Rightarrow> hval list result" where
  "h_iter h x =
     (case x of
        HStr s \<Rightarrow> Inr (map (\<lambda>c. HStr [c]) s)
      | HRef a \<Rightarrow>
          (case h_obj h x of
             Some (OList xs) \<Rightarrow> Inr xs
           | Some (ODict d) \<Rightarrow> Inr (map (\<lambda>kv. HStr (fst kv)) d)
           | None \<Rightarrow> Inl TypeError)
      | _ \<Rightarrow> Inl TypeError)"

definition h_items :: "heap \<Rightarrow> hval \<Rightarrow> (string \<times> hval) list result" where
  "h_items h x = (case h_obj h x of Some (ODict d) \<Rightarrow> Inr d | _ \<Rightarrow> Inl AttributeError)"

text \<open>\<^verbatim>\<open>_expand_env_vars\<close>: the pairs are new objects; the mapping form stores the values
  of the input in them.\<close>

definition h_env_pair :: "string \<Rightarrow> hval \<Rightarrow> heap \<Rightarrow> hval \<times> heap" where
  "h_env_pair n v h = h_alloc (ODict [(''name'', HStr n), (''value'', v)]) h"

fun h_env_pairs :: "(string \<times> hval) list \<Rightarrow> heap \<Rightarrow> hval list \<times> heap" where
  "h_env_pairs [] h = ([], h)"
| "h_env_pairs (kv # d) h =
     (case h_env_pair (fst kv) (snd kv) h of (p, h1) \<Rightarrow>
      case h_env_pairs d h1 of (ps, h2) \<Rightarrow> (p # ps, h2))"

definition h_expand_evar :: "hval list \<times> heap \<Rightarrow> hval \<Rightarrow> (hval list \<times> heap) result" where
  "h_expand_evar st evar =
     (case st of (results, h) \<Rightarrow>
      case evar of
        HStr s \<Rightarrow>
          (let parts = py_split1 (CHR ''='') s in
           if length parts = 1 then
             (case h_env_pair (parts ! 0) HNone h of (p, h') \<Rightarrow> Inr (results @ [p], h'))
           else if length parts = 2 then
             (case h_env_pair (parts ! 0) (HStr (parts ! 1)) h of (p, h') \<Rightarrow>
                Inr (results @ [p], h'))
           else Inr (results, h))
      | _ \<Rightarrow> Inl AttributeError)"

definition h_expand_env_vars :: "hval \<Rightarrow> heap \<Rightarrow> (hval list \<times> heap) result" where
  "h_expand_env_vars env_variables h =
     (case h_obj h env_variables of
        Some (ODict d) \<Rightarrow> Inr (h_env_pairs d h)
      | Some (OList evars) \<Rightarrow> for_each h_expand_evar evars ([], h)
      | None \<Rightarrow> Inr ([], h))"

text \<open>\<^verbatim>\<open>_add_container_ports\<close>: the entries are appended to the list object
  \<^verbatim>\<open>existing_ports\<close>, which the caller has just created.\<close>

definition h_port_exists :: "heap \<Rightarrow> hval list \<Rightarrow> int \<Rightarrow> string \<Rightarrow> bool" where
  "h_port_exists h existing_ports n protocol =
     (filter (\<lambda>p. h_getitem h p ''containerPort'' = Inr (HInt n)
                 \<and> h_getitem h p ''protocol'' = Inr (HStr protocol)) existing_ports \<noteq> [])"

definition h_container_port_step :: "hval \<Rightarrow> heap \<Rightarrow> hval \<Rightarrow> heap result" where
  "h_container_port_step existing_ports h port =
     bnd (split_protocol (shallow h port)) (\<lambda>(port, protocol).
     bnd (split_host port) (\<lambda>port.
     bnd (py_int port) (\<lambda>n.
       case h_obj h existing_ports of
         Some (OList eps) \<Rightarrow>
           if h_port_exists h eps n protocol then Inr h
           else (case h_alloc (ODict [(''containerPort'', HInt n),
                                      (''protocol'', HStr (py_upper protocol))]) h of
                   (entry, h') \<Rightarrow> h_append existing_ports entry h')
       | _ \<Rightarrow> Inl TypeError)))"

definition h_add_container_ports :: "hval \<Rightarrow> hval \<Rightarrow> heap \<Rightarrow> heap result" where
  "h_add_container_ports ports existing_ports h =
     bnd (h_iter h ports) (\<lambda>ps. for_each (h_container_port_step existing_ports) ps h)"

text \<open>\<^verbatim>\<open>container['securityContext'][k] = v\<close>: the object that the container holds under
  \<^verbatim>\<open>securityContext\<close> is changed in place.\<close>

definition h_set_security_context :: "hval \<Rightarrow> string \<Rightarrow> hval \<Rightarrow> heap \<Rightarrow> heap result" where
  "h_set_security_context container k v h =
     bnd (h_getitem h container ''securityContext'') (\<lambda>sc. h_setitem sc k v h)"

definition h_ensure_capabilities :: "hval \<Rightarrow> heap \<Rightarrow> heap result" where
  "h_ensure_capabilities container h =
     bnd (h_getitem h container ''securityContext'') (\<lambda>sc.
     bnd (h_get h sc ''Capabilities'') (\<lambda>caps.
       if \<not> h_truthy h caps then
         (case h_alloc (OList []) h of (add_list, h1) \<Rightarrow>
          case h_alloc (OList []) h1 of (drop_list, h2) \<Rightarrow>
          case h_alloc (ODict [(''add'', add_list), (''drop'', drop_list)]) h2 of (d, h3) \<Rightarrow>
          h_set_security_context container ''Capabilities'' d h3)
       else Inr h))"

definition h_capability_step :: "string \<Rightarrow> hval \<Rightarrow> heap \<Rightarrow> hval \<Rightarrow> heap result" where
  "h_capability_step which container h cap =
     bnd (capability_lookup (shallow h cap)) (\<lambda>kube.
       if truthy kube then
         bnd (h_getitem h container ''securityContext'') (\<lambda>sc.
         bnd (h_getitem h sc ''Capabilities'') (\<lambda>caps.
         bnd (h_getitem h caps which) (\<lambda>lst.
         h_append lst (HStr (py_str kube)) h)))
       else Inr h)"

definition h_tokenize ::
  "(string \<Rightarrow> string list result) \<Rightarrow> hval \<Rightarrow> heap \<Rightarrow> (hval \<times> heap) result" where
  "h_tokenize shlex_split value h =
     (case value of
        HStr s \<Rightarrow> bnd (shlex_split s) (\<lambda>ws. Inr (h_alloc (OList (map HStr ws)) h))
      | _ \<Rightarrow> Inr (value, h))"

text \<open>The body of the loop over \<^verbatim>\<open>service.items()\<close>. The container is one object; the
  state of the loop is the local list \<^verbatim>\<open>volumes\<close> and the store. The last branch stores
  the value of the directive itself, not a copy.\<close>

definition h_directive_step ::
  "(string \<Rightarrow> string list result) \<Rightarrow> hval \<Rightarrow> hval list \<times> heap \<Rightarrow> string \<times> hval \<Rightarrow>
   (hval list \<times> heap) result" where
  "h_directive_step shlex_split container st item =
     (case st of (volumes, h) \<Rightarrow>
      case item of (key, value) \<Rightarrow>
      if key \<in> set IGNORE_DIRECTIVES then Inr (volumes, h)
      else if key = ''cap_add'' then
        bnd (h_ensure_capabilities container h) (\<lambda>h.
        bnd (h_iter h value) (\<lambda>caps.
        bnd (for_each (h_capability_step ''add'' container) caps h) (\<lambda>h.
        Inr (volumes, h))))
      else if key = ''cap_drop'' then
        bnd (h_ensure_capabilities container h) (\<lambda>h.
        bnd (h_iter h value) (\<lambda>caps.
        bnd (for_each (h_capability_step ''drop'' container) caps h) (\<lambda>h.
        Inr (volumes, h))))
      else if key = ''command'' then
        bnd (h_tokenize shlex_split value h) (\<lambda>(args, h).
        bnd (h_setitem container ''args'' args h) (\<lambda>h. Inr (volumes, h)))
      else if key = ''container_name'' then
        bnd (h_setitem container ''name'' value h) (\<lambda>h. Inr (volumes, h))
      else if key = ''entrypoint'' then
        bnd (h_tokenize shlex_split value h) (\<lambda>(command, h).
        bnd (h_setitem container ''command'' command h) (\<lambda>h. Inr (volumes, h)))
      else if key = ''environment'' then
        bnd (h_expand_env_vars value h) (\<lambda>(expanded_vars, h).
          if expanded_vars \<noteq> [] then
            (case h_alloc (OList expanded_vars) h of (env, h) \<Rightarrow>
             bnd (h_setitem container ''env'' env h) (\<lambda>h. Inr (volumes, h)))
          else Inr (volumes, h))
      else if key \<in> set [''ports'', ''expose''] then
        bnd (h_get h container ''ports'') (\<lambda>ports.
        bnd (if \<not> h_truthy h ports
             then (case h_alloc (OList []) h of (fresh, h) \<Rightarrow>
                     h_setitem container ''ports'' fresh h)
             else Inr h) (\<lambda>h.
        bnd (h_getitem h container ''ports'') (\<lambda>existing_ports.
        bnd (h_add_container_ports value existing_ports h) (\<lambda>h.
        Inr (volumes, h)))))
      else if key = ''privileged'' then
        bnd (h_set_security_context container ''privileged'' value h) (\<lambda>h. Inr (volumes, h))
      else if key = ''read_only'' then
        bnd (h_set_security_context container ''readOnlyRootFileSystem'' value h) (\<lambda>h.
        Inr (volumes, h))
      else if key = ''stdin_open'' then
        bnd (h_setitem container ''stdin'' value h) (\<lambda>h. Inr (volumes, h))
      else if key = ''volumes'' then
        bnd (kube_volumes_call1 (shallow h value)) (\<lambda>r. Inr (volumes, h))
      else if key = ''working_dir'' then
        bnd (h_setitem container ''workingDir'' value h) (\<lambda>h. Inr (volumes, h))
      else
        bnd (h_setitem container key value h) (\<lambda>h. Inr (volumes, h)))"

text \<open>The body of the loop over the extension block; \<^verbatim>\<open>pod\<close> is a local mapping.\<close>

definition h_k8s_step ::
  "hval \<Rightarrow> (string \<times> hval) list \<times> heap \<Rightarrow> string \<times> hval \<Rightarrow>
   ((string \<times> hval) list \<times> heap) result" where
  "h_k8s_step container st item =
     (case st of (pod, h) \<Rightarrow>
      case item of (key, value) \<Rightarrow>
      if key = ''seLinuxOptions'' then
        bnd (h_set_security_context container ''seLinuxOptions'' value h) (\<lambda>h. Inr (pod, h))
      else if key = ''runAsNonRoot'' then
        bnd (h_set_security_context container ''runAsNonRoot'' value h) (\<lambda>h. Inr (pod, h))
      else if key = ''runAsUser'' then
        bnd (h_set_security_context container ''runAsUser'' value h) (\<lambda>h. Inr (pod, h))
      else if key = ''replicas'' then Inr (dict_set pod ''replicas'' value, h)
      else if key = ''state'' then Inr (dict_set pod ''state'' value, h)
      else Inr (pod, h))"

text \<open>\<^verbatim>\<open>_service_to_container\<close>: the container and its \<^verbatim>\<open>securityContext\<close> are new
  objects (lines 314 to 317).\<close>

definition h_service_to_container ::
  "(string \<Rightarrow> string list result) \<Rightarrow> string \<Rightarrow> hval \<Rightarrow> heap \<Rightarrow>
   ((hval \<times> hval list \<times> (string \<times> hval) list) \<times> heap) result" where
  "h_service_to_container shlex_split name service h =
     (case h_alloc (ODict []) h of (sc, h) \<Rightarrow>
      case h_alloc (ODict [(''name'', HStr name), (''securityContext'', sc),
                           (''state'', HStr ''present'')]) h of (container, h) \<Rightarrow>
      bnd (h_items h service) (\<lambda>items.
      bnd (for_each (h_directive_step shlex_split container) items ([], h)) (\<lambda>(volumes, h).
      bnd (h_get h service ''k8s'') (\<lambda>k8s.
        if h_truthy h k8s then
          bnd (h_getitem h service ''k8s'') (\<lambda>k8s.
          bnd (h_items h k8s) (\<lambda>k8s_items.
          bnd (for_each (h_k8s_step container) k8s_items ([], h)) (\<lambda>(pod, h).
          Inr ((container, volumes, pod), h))))
        else Inr ((container, volumes, []), h)))))"

text \<open>
  The workload resource is built from new mappings; it holds the container object, the
  local list of volumes when it is not empty, and the \<^verbatim>\<open>replicas\<close> value of the input.
  The project name is a string or \<^verbatim>\<open>None\<close>, so \<^verbatim>\<open>copy.deepcopy(labels)\<close> is a new
  mapping with the same two entries.
\<close>

definition h_labels :: "hval \<Rightarrow> string \<Rightarrow> heap \<Rightarrow> hval \<times> heap" where
  "h_labels project_name name h =
     h_alloc (ODict [(''app'', project_name), (''service'', HStr name)]) h"

definition h_deployment_template ::
  "hval \<Rightarrow> string \<Rightarrow> hval \<Rightarrow> hval list \<Rightarrow> (string \<times> hval) list \<Rightarrow> heap \<Rightarrow> hval \<times> heap" where
  "h_deployment_template project_name name container volumes pod h =
     (case h_labels project_name name h of (labels1, h) \<Rightarrow>
      case h_labels project_name name h of (labels2, h) \<Rightarrow>
      case h_alloc (ODict [(''name'', HStr name), (''labels'', labels1),
                           (''namespace'', project_name)]) h of (metadata, h) \<Rightarrow>
      case h_alloc (ODict [(''labels'', labels2)]) h of (pod_metadata, h) \<Rightarrow>
      case h_alloc (OList [container]) h of (containers, h) \<Rightarrow>
      case h_alloc (OList volumes) h of (volume_list, h) \<Rightarrow>
      case h_alloc (ODict (if volumes \<noteq> []
                           then [(''containers'', containers), (''volumes'', volume_list)]
                           else [(''containers'', containers)])) h of (pod_spec, h) \<Rightarrow>
      case h_alloc (ODict [(''type'', HStr ''RollingUpate'')]) h of (strategy, h) \<Rightarrow>
      case h_alloc (ODict [(''metadata'', pod_metadata), (''spec'', pod_spec),
                           (''replicas'', HInt 1), (''strategy'', strategy)]) h of
        (pod_template, h) \<Rightarrow>
      case h_alloc (ODict (case map_of pod ''replicas'' of
                             None \<Rightarrow> [(''template'', pod_template)]
                           | Some value \<Rightarrow> [(''template'', pod_template), (''replicas'', value)]))
             h of (spec, h) \<Rightarrow>
      h_alloc (ODict [(''apiVersion'', HStr ''extensions/v1beta1''),
                      (''kind'', HStr ''Deployment''),
                      (''metadata'', metadata), (''spec'', spec)]) h)"

definition h_deployment_step ::
  "(string \<Rightarrow> string list result) \<Rightarrow> hval \<Rightarrow> hval list \<times> heap \<Rightarrow> string \<times> hval \<Rightarrow>
   (hval list \<times> heap) result" where
  "h_deployment_step shlex_split project_name st item =
     (case st of (templates, h) \<Rightarrow>
      case item of (name, service_config) \<Rightarrow>
      bnd (h_service_to_container shlex_split name service_config h)
        (\<lambda>((container, volumes, pod), h).
          let st = (case map_of pod ''state'' of None \<Rightarrow> HNone | Some v \<Rightarrow> v);
              state = (if h_truthy h st then st else HStr ''present'');
              pod = (if h_truthy h st then filter (\<lambda>kv. fst kv \<noteq> ''state'') pod else pod)
          in if state = HStr ''present''
             then (case h_deployment_template project_name name container volumes pod h of
                     (template, h) \<Rightarrow> Inr (templates @ [template], h))
             else Inr (templates, h)))"

text \<open>The translator object holds references into the store.\<close>

record h_deployment =
  h_services :: hval
  h_project_name :: hval
  h_volumes :: hval

definition h_deployments ::
  "(string \<Rightarrow> string list result) \<Rightarrow> h_deployment \<Rightarrow> heap \<Rightarrow> (hval list \<times> heap) result" where
  "h_deployments shlex_split self h =
     (if h_truthy h (h_services self) then
        bnd (h_items h (h_services self)) (\<lambda>items.
        for_each (h_deployment_step shlex_split (h_project_name self)) items ([], h))
      else Inr ([], h))"

text \<open>
  Two evaluations of \<^verbatim>\<open>deployments\<close> on one translator object, in a store that holds
  nothing but its configuration. The result lists what an observer sees: the services
  mapping before the first evaluation and after it, the output of the first evaluation
  when it returns, and the output of the second.
\<close>

definition load :: "deployment \<Rightarrow> h_deployment \<times> heap" where
  "load d =
     (case alloc_val (u_services d) [] of (s, h1) \<Rightarrow>
      case alloc_val (u_project_name d) h1 of (p, h2) \<Rightarrow>
      case alloc_val (u_volumes d) h2 of (v, h3) \<Rightarrow>
      (\<lparr>h_services = s, h_project_name = p, h_volumes = v\<rparr>, h3))"

definition deployments_twice ::
  "(string \<Rightarrow> string list result) \<Rightarrow> deployment \<Rightarrow>
   (pyval option \<times> pyval option \<times> pyval option list \<times> pyval option list) result" where
  "deployments_twice shlex_split d =
     (case load d of (self, h0) \<Rightarrow>
      bnd (h_deployments shlex_split self h0) (\<lambda>(out1, h1).
      bnd (h_deployments shlex_split self h1) (\<lambda>(out2, h2).
      Inr (snapshot h0 (h_services self), snapshot h1 (h_services self),
           map (snapshot h1) out1, map (snapshot h2) out2))))"

text \<open>A service with a directive named \<^verbatim>\<open>securityContext\<close> before its \<^verbatim>\<open>cap_add\<close>.\<close>

definition aliasing_example :: deployment where
  "aliasing_example =
     \<lparr>u_services = PDict [(''web'', PDict [(''securityContext'', PDict []),
                                           (''cap_add'', PList [PStr ''NET_ADMIN''])])],
      u_project_name = PStr ''demo'', u_volumes = PNone\<rparr>"

section \<open>Reading a resource\<close>

text \<open>\<^verbatim>\<open>t['metadata']['name']\<close> and \<^verbatim>\<open>t['spec']['ports']\<close> of a network resource.\<close>

definition resource_name :: "pyval \<Rightarrow> pyval result" where
  "resource_name t = bnd (py_getitem t ''metadata'') (\<lambda>m. py_getitem m ''name'')"


text \<open>The pod specification \<^verbatim>\<open>t['spec']['template']['spec']\<close> of a workload resource,
  its \<^verbatim>\<open>containers\<close> and its \<^verbatim>\<open>volumes\<close> (\<^verbatim>\<open>None\<close> when the key is absent).\<close>

definition pod_spec :: "pyval \<Rightarrow> pyval result" where
  "pod_spec t =
     bnd (py_getitem t ''spec'') (\<lambda>sp.
     bnd (py_getitem sp ''template'') (\<lambda>tpl.
     py_getitem tpl ''spec''))"

definition pod_containers :: "pyval \<Rightarrow> pyval result" where
  "pod_containers t = bnd (pod_spec t) (\<lambda>ps. py_getitem ps ''containers'')"

definition pod_volumes :: "pyval \<Rightarrow> pyval result" where
  "pod_volumes t = bnd (pod_spec t) (\<lambda>ps. py_get ps ''volumes'')"

section \<open>Auxiliary notions for the workload generator\<close>

text \<open>The directives that \<^verbatim>\<open>_service_to_container\<close> names in its conditional chain.\<close>

definition handled_keys :: "string list" where
  "handled_keys = [''cap_add'', ''cap_drop'', ''command'', ''container_name'', ''entrypoint'',
     ''environment'', ''ports'', ''expose'', ''privileged'', ''read_only'', ''stdin_open'',
     ''volumes'', ''working_dir'']"

text \<open>The container has no \<^verbatim>\<open>volumeMounts\<close> (or a null one), or the value of a directive
  of that very name in the service configuration.\<close>

definition mounts_from :: "(string \<times> pyval) list \<Rightarrow> pyval \<Rightarrow> bool" where
  "mounts_from cfg c =
     (\<exists>v. py_get c ''volumeMounts'' = Inr v \<and> (v = PNone \<or> (''volumeMounts'', v) \<in> set cfg))"

text \<open>A workload resource without pod-level volumes that bears the name of one of the
  services and whose single container has \<^verbatim>\<open>volumeMounts\<close> only from a directive of
  that name in the configuration of that very service.\<close>

definition workload_clean :: "(string \<times> pyval) list \<Rightarrow> pyval \<Rightarrow> bool" where
  "workload_clean svcs t =
     (pod_volumes t = Inr PNone \<and>
      (\<exists>name cfg c v. (name, PDict cfg) \<in> set svcs \<and> resource_name t = Inr (PStr name) \<and>
         pod_containers t = Inr (PList [c]) \<and> py_get c ''volumeMounts'' = Inr v \<and>
         (v = PNone \<or> (''volumeMounts'', v) \<in> set cfg)))"

text \<open>Two configurations: a service with a \<^verbatim>\<open>volumes\<close> directive, and a service with a
  directive named \<^verbatim>\<open>volumeMounts\<close>, which no branch of the chain names.\<close>

definition volumes_example :: deployment where
  "volumes_example =
     \<lparr>u_services = PDict [(''web'', PDict [(''image'', PStr ''nginx''),
                                           (''volumes'', PList [PStr ''/srv/www:/var/www''])])],
      u_project_name = PStr ''demo'', u_volumes = PNone\<rparr>"

definition mounts_example :: deployment where
  "mounts_example =
     \<lparr>u_services = PDict [(''web'', PDict [(''image'', PStr ''nginx''),
         (''volumeMounts'', PList [PDict [(''name'', PStr ''data''),
                                          (''mountPath'', PStr ''/data'')]])])],
      u_project_name = PStr ''demo'', u_volumes = PNone\<rparr>"

text \<open>Two services, of which only the first has a directive named \<^verbatim>\<open>volumeMounts\<close>.\<close>

definition mounts_pair_example :: deployment where
  "mounts_pair_example =
     \<lparr>u_services = PDict [(''web'', PDict [(''volumeMounts'', PStr ''data'')]),
                          (''db'', PDict [(''image'', PStr ''postgres'')])],
      u_project_name = PStr ''demo'', u_volumes = PNone\<rparr>"

text \<open>A port descriptor whose \<^verbatim>\<open>port\<close> and \<^verbatim>\<open>targetPort\<close> are equal.\<close>

definition same_target :: "pyval \<Rightarrow> bool" where
  "same_target p = (py_getitem p ''port'' = py_getitem p ''targetPort'')"

section \<open>A tokenizer for the examples\<close>

text \<open>
  On words separated by single blanks, without quotes, backslashes or other white space,
  \<^verbatim>\<open>shlex.split\<close> returns the words. The theorems below hold for every tokenizer; this
  one stands for it where a generator is evaluated on a concrete configuration.
\<close>

definition shlex_split_words :: "string \<Rightarrow> string list result" where
  "shlex_split_words s = Inr (filter (\<lambda>w. w \<noteq> []) (py_split (CHR '' '') s))"


section \<open>Properties\<close>

subsection \<open>Environment entries\<close>

lemma py_split1_no_sep: "sep \<notin> set s \<Longrightarrow> py_split1 sep s = [s]"
  by (induction s) auto

lemma py_split1_sep:
  "sep \<in> set s \<Longrightarrow>
   py_split1 sep s = [takeWhile (\<lambda>c. c \<noteq> sep) s, tl (dropWhile (\<lambda>c. c \<noteq> sep) s)]"
  by (induction s) auto

lemma expand_evar_spec:
  "expand_evar results (PStr e) = Inr (results @ [spec_env_entry e])"
  by (cases "CHR ''='' \<in> set e")
     (simp_all add: spec_env_entry_def py_split1_no_sep py_split1_sep)

lemma for_each_expand_evar:
  "for_each expand_evar (map PStr es) results = Inr (results @ map spec_env_entry es)"
  by (induction es arbitrary: results)
     (simp_all add: expand_evar_spec bnd_def del: expand_evar.simps)

lemma spec_env_entry_key_value:
  "CHR ''='' \<notin> set k \<Longrightarrow> spec_env_entry (k @ CHR ''='' # v) = env_pair k (PStr v)"
  by (simp add: spec_env_entry_def takeWhile_append dropWhile_append)

lemma spec_env_entry_bare:
  "CHR ''='' \<notin> set e \<Longrightarrow> spec_env_entry e = env_pair e PNone"
  by (simp add: spec_env_entry_def)

text \<open>
  C9. For a list of strings the environment normalizer returns one name/value pair per
  entry, in order: \<^verbatim>\<open>KEY=VALUE\<close> gives name \<^verbatim>\<open>KEY\<close> and value \<^verbatim>\<open>VALUE\<close>, split
  at the first \<^verbatim>\<open>=\<close> only, and a bare \<^verbatim>\<open>KEY\<close> gives name \<^verbatim>\<open>KEY\<close> and the value
  null (not the empty string).
\<close>

theorem expand_env_vars_list:
  "\<exists>rs. expand_env_vars (PList (map PStr es)) = Inr rs \<and> length rs = length es \<and>
     (\<forall>i<length es.
        (\<forall>k v. es ! i = k @ CHR ''='' # v \<and> CHR ''='' \<notin> set k \<longrightarrow>
           rs ! i = PDict [(''name'', PStr k), (''value'', PStr v)])
      \<and> (CHR ''='' \<notin> set (es ! i) \<longrightarrow>
           rs ! i = PDict [(''name'', PStr (es ! i)), (''value'', PNone)]))"
proof (intro exI conjI allI impI)
  show "expand_env_vars (PList (map PStr es)) = Inr (map spec_env_entry es)"
    by (simp add: for_each_expand_evar)
  show "length (map spec_env_entry es) = length es" by simp
next
  fix i k v
  assume "i < length es" "es ! i = k @ CHR ''='' # v \<and> CHR ''='' \<notin> set k"
  then show "map spec_env_entry es ! i = PDict [(''name'', PStr k), (''value'', PStr v)]"
    by (simp add: spec_env_entry_key_value env_pair_def)
next
  fix i
  assume "i < length es" "CHR ''='' \<notin> set (es ! i)"
  then show "map spec_env_entry es ! i = PDict [(''name'', PStr (es ! i)), (''value'', PNone)]"
    by (simp add: spec_env_entry_bare env_pair_def)
qed

theorem expand_env_vars_list_witness:
  "expand_env_vars (PList (map PStr [''PATH=/bin:/opt=x'', ''HOME'', ''EMPTY=''])) =
     Inr [PDict [(''name'', PStr ''PATH''), (''value'', PStr ''/bin:/opt=x'')],
          PDict [(''name'', PStr ''HOME''), (''value'', PNone)],
          PDict [(''name'', PStr ''EMPTY''), (''value'', PStr [])]]"
proof -
  from expand_env_vars_list[of "[''PATH=/bin:/opt=x'', ''HOME'', ''EMPTY='']"]
  obtain rs where
    run: "expand_env_vars (PList (map PStr [''PATH=/bin:/opt=x'', ''HOME'', ''EMPTY=''])) = Inr rs"
    and len: "length rs = 3"
    and each: "\<forall>i<3.
        (\<forall>k v. [''PATH=/bin:/opt=x'', ''HOME'', ''EMPTY=''] ! i = k @ CHR ''='' # v
                 \<and> CHR ''='' \<notin> set k \<longrightarrow>
           rs ! i = PDict [(''name'', PStr k), (''value'', PStr v)])
      \<and> (CHR ''='' \<notin> set ([''PATH=/bin:/opt=x'', ''HOME'', ''EMPTY=''] ! i) \<longrightarrow>
           rs ! i = PDict [(''name'', PStr ([''PATH=/bin:/opt=x'', ''HOME'', ''EMPTY=''] ! i)),
                           (''value'', PNone)])"
    by auto
  have 0: "rs ! 0 = PDict [(''name'', PStr ''PATH''), (''value'', PStr ''/bin:/opt=x'')]"
    using conjunct1[OF each[rule_format, of 0], rule_format, of "''PATH''" "''/bin:/opt=x''"]
    by simp
  have 1: "rs ! 1 = PDict [(''name'', PStr ''HOME''), (''value'', PNone)]"
    using conjunct2[OF each[rule_format, of 1]] by simp
  have 2: "rs ! 2 = PDict [(''name'', PStr ''EMPTY''), (''value'', PStr [])]"
    using conjunct1[OF each[rule_format, of 2], rule_format, of "''EMPTY''" "[]"] by simp
  from len have "rs = [rs ! 0, rs ! 1, rs ! 2]"
    by (cases rs; cases "tl rs"; cases "tl (tl rs)") auto
  with 0 1 2 run show ?thesis by simp
qed

subsection \<open>Port resolution and escalation\<close>

lemmas port_defs = get_service_ports_def bnd_def ports_step_def expose_step_def
  split_protocol_def split_host_def append_port_def port_in_list_def port_descriptor_def
  int_of_string_def strip_def is_space_def unsigned_of_string_def is_digit_def
  digits_value_def py_upper_def upper_char_def

text \<open>
  C1. The specification asks that a service whose ports are \<^verbatim>\<open>["8080:80"]\<close> gets one
  port with \<^verbatim>\<open>port=8080\<close>, \<^verbatim>\<open>targetPort=80\<close> and the load-balanced type, and that
  a service whose ports are \<^verbatim>\<open>["80"]\<close> gets \<^verbatim>\<open>port=80\<close>, \<^verbatim>\<open>targetPort=80\<close> and
  no type. The code gives both services the same resource: the host part is dropped
  before the descriptor is built, so \<^verbatim>\<open>port\<close> and \<^verbatim>\<open>targetPort\<close> are both 80 and
  the type is never set.
\<close>

theorem create_service_host_port_dropped:
  "create_service project_name name (PDict [(''ports'', PList [PStr ''8080:80''])]) =
     Inr (PDict [(''apiVersion'', PStr ''v1''), (''kind'', PStr ''Service''),
                 (''metadata'', PDict [(''name'', PStr name),
                    (''labels'', PDict [(''app'', project_name), (''service'', PStr name)])]),
                 (''spec'', PDict [
                    (''selector'', PDict [(''app'', project_name), (''service'', PStr name)]),
                    (''ports'', PList [PDict [(''port'', PInt 80), (''targetPort'', PInt 80),
                       (''protocol'', PStr ''TCP''), (''name'', PStr ''port-80-TCP'')]])])])
   \<and> create_service project_name name (PDict [(''ports'', PList [PStr ''80''])]) =
     create_service project_name name (PDict [(''ports'', PList [PStr ''8080:80''])])"
  by (simp add: create_service_def port_defs Let_def)

text \<open>
  C2. The specification asks for one descriptor per distinct pair of port and protocol,
  a protocol in any letter case counting as its upper-case form. The code compares the
  protocol as written: \<^verbatim>\<open>"80"\<close> and \<^verbatim>\<open>"80/tcp"\<close> give two descriptors, both named
  \<^verbatim>\<open>port-80-TCP\<close>.
\<close>

theorem get_service_ports_case_duplicate:
  "get_service_ports (PDict [(''ports'', PList [PStr ''80'', PStr ''80/tcp''])]) =
     Inr [PDict [(''port'', PInt 80), (''targetPort'', PInt 80),
                 (''protocol'', PStr ''TCP''), (''name'', PStr ''port-80-TCP'')],
          PDict [(''port'', PInt 80), (''targetPort'', PInt 80),
                 (''protocol'', PStr ''tcp''), (''name'', PStr ''port-80-TCP'')]]"
  by code_simp

text \<open>The container-level list has the same defect the other way round: the stored
  protocol is upper case, the comparison is not, so a repeated \<^verbatim>\<open>"80/tcp"\<close> is kept twice.\<close>

lemma add_container_ports_case_duplicate:
  "add_container_ports (PList [PStr ''80/tcp'', PStr ''80/tcp'']) (PList []) =
     Inr (PList [PDict [(''containerPort'', PInt 80), (''protocol'', PStr ''TCP'')],
                 PDict [(''containerPort'', PInt 80), (''protocol'', PStr ''TCP'')]])"
  by code_simp

subsection \<open>Storage claims\<close>

lemma volume_to_pvc_persistent:
  "py_get claim ''type'' = Inr (PStr ''persistent'') \<Longrightarrow> volume_to_pvc claim = Inl KeyError"
  by (cases claim)
     (auto simp: volume_to_pvc_def bnd_def py_setitem3_def py_setitem2_def split: option.splits)

text \<open>
  C3. The specification asks that a persistent volume with a \<^verbatim>\<open>claim_name\<close> and no
  \<^verbatim>\<open>storage\<close> yields a claim requesting \<^verbatim>\<open>1Gi\<close>. The code reads
  \<^verbatim>\<open>template['spec']['requested']\<close> from the \<^verbatim>\<open>spec\<close> it has just created empty:
  the generator raises \<^verbatim>\<open>KeyError\<close> and returns no claim.
\<close>

theorem persistent_claim_raises:
  "persistent_volume_claims
     \<lparr>u_services = services_cfg, u_project_name = project_name,
      u_volumes = PDict [(''data'', PDict [(''k8s'',
        PDict [(''type'', PStr ''persistent''), (''claim_name'', PStr ''claim'')])])]\<rparr>
   = Inl KeyError
   \<and> persistent_volume_claims
     \<lparr>u_services = services_cfg, u_project_name = project_name,
      u_volumes = PDict [(''data'', PDict [(''k8s'',
        PDict [(''type'', PStr ''persistent''), (''claim_name'', PStr ''claim''),
               (''storage'', PStr ''5Gi'')])])]\<rparr>
   = Inl KeyError"
  by (simp add: persistent_volume_claims_def pvc_step_def volume_to_pvc_def bnd_def
        py_setitem3_def py_setitem2_def)

text \<open>
  C4. The specification asks that a volatile volume contributes no entry to the output
  and raises no error. The code raises no error, but appends what \<^verbatim>\<open>_volume_to_pvc\<close>
  returned, which is \<^verbatim>\<open>None\<close>: the output has one entry for the volume, and the entry
  is no claim resource.
\<close>

theorem volatile_claim_appends_none:
  "persistent_volume_claims
     \<lparr>u_services = services_cfg, u_project_name = project_name,
      u_volumes = PDict [(''scratch'', PDict [(''k8s'', PDict [(''type'', PStr ''volatile'')])])]\<rparr>
   = Inr [PNone]"
  by (simp add: persistent_volume_claims_def pvc_step_def volume_to_pvc_def bnd_def)

subsection \<open>Failing loops\<close>

lemma for_each_fails:
  "x \<in> set xs \<Longrightarrow> (\<And>s. \<exists>e. body s x = Inl e) \<Longrightarrow> \<exists>e. for_each body xs s = Inl e"
proof (induction xs arbitrary: s)
  case Nil
  then show ?case by simp
next
  case (Cons y ys)
  show ?case
  proof (cases "body s y")
    case (Inl e)
    then show ?thesis by (simp add: bnd_def)
  next
    case (Inr s')
    show ?thesis
    proof (cases "x = y")
      case True
      with Cons.prems(2)[of s] Inr show ?thesis by auto
    next
      case False
      with Cons.prems(1) have "x \<in> set ys" by simp
      from Cons.IH[OF this Cons.prems(2), of s'] Inr show ?thesis by (simp add: bnd_def)
    qed
  qed
qed

lemma service_to_container_fails:
  assumes "item \<in> set cfg" "\<And>st. \<exists>e. directive_step shlex_split st item = Inl e"
  shows "\<exists>e. service_to_container shlex_split name (PDict cfg) = Inl e"
proof -
  from for_each_fails[OF assms(1), of "directive_step shlex_split" "(new_container name, [])"]
    assms(2)
  obtain e where "for_each (directive_step shlex_split) cfg (new_container name, []) = Inl e"
    by blast
  then show ?thesis by (simp add: service_to_container_def bnd_def)
qed

lemma deployments_fails:
  assumes "u_services self = PDict svcs" "(name, service) \<in> set svcs"
    "\<exists>e. service_to_container shlex_split name service = Inl e"
  shows "\<exists>e. deployments shlex_split self = Inl e"
proof -
  have step: "\<exists>e. deployment_step shlex_split (u_project_name self) ts (name, service) = Inl e"
    for ts
    using assms(3) by (auto simp: deployment_step_def bnd_def)
  from assms(2) have "svcs \<noteq> []" by auto
  with for_each_fails[OF assms(2), of "deployment_step shlex_split (u_project_name self)" "[]"]
    step
  show ?thesis by (simp add: deployments_def assms(1) bnd_def)
qed

subsection \<open>Capabilities\<close>

lemma capability_step_unknown:
  "map_of DOCKER_TO_KUBE_CAPABILITY_MAPPING c = None \<Longrightarrow>
   capability_step which container (PStr c) = Inl KeyError"
  by (simp add: capability_step_def bnd_def)

lemma key_not_ignored:
  "''cap_add'' \<notin> set IGNORE_DIRECTIVES"
  "''cap_drop'' \<notin> set IGNORE_DIRECTIVES"
  "''volumes'' \<notin> set IGNORE_DIRECTIVES"
  by (simp_all add: IGNORE_DIRECTIVES_def)

lemma directive_step_cap_add:
  "directive_step shlex_split (container, volumes) (''cap_add'', value) =
     bnd (ensure_capabilities container) (\<lambda>container.
     bnd (py_iter value) (\<lambda>caps.
     bnd (for_each (capability_step ''add'') caps container) (\<lambda>container.
     Inr (container, volumes))))"
  by (simp add: directive_step_def key_not_ignored)

lemma directive_step_cap_drop:
  "directive_step shlex_split (container, volumes) (''cap_drop'', value) =
     bnd (ensure_capabilities container) (\<lambda>container.
     bnd (py_iter value) (\<lambda>caps.
     bnd (for_each (capability_step ''drop'') caps container) (\<lambda>container.
     Inr (container, volumes))))"
  by (simp add: directive_step_def key_not_ignored)

lemma directive_step_unknown_capability:
  assumes "key = ''cap_add'' \<or> key = ''cap_drop''" "PStr c \<in> set caps"
    "map_of DOCKER_TO_KUBE_CAPABILITY_MAPPING c = None"
  shows "\<exists>e. directive_step shlex_split st (key, PList caps) = Inl e"
proof -
  obtain container volumes where st: "st = (container, volumes)" by (cases st)
  have loop: "\<exists>e. for_each (capability_step which) caps k = Inl e" for which k
    by (rule for_each_fails[OF assms(2)]) (simp add: capability_step_unknown[OF assms(3)])
  show ?thesis
  proof (cases "ensure_capabilities container")
    case (Inl e)
    with assms(1) show ?thesis
      unfolding st
      by (elim disjE) (simp_all add: directive_step_cap_add directive_step_cap_drop bnd_def)
  next
    case (Inr k)
    from loop[of "''add''" k]
    obtain e1 where e1: "for_each (capability_step ''add'') caps k = Inl e1" by blast
    from loop[of "''drop''" k]
    obtain e2 where e2: "for_each (capability_step ''drop'') caps k = Inl e2" by blast
    from assms(1) Inr e1 e2 show ?thesis
      unfolding st
      by (elim disjE) (simp_all add: directive_step_cap_add directive_step_cap_drop bnd_def)
  qed
qed

text \<open>
  C5. When the \<^verbatim>\<open>cap_add\<close> or \<^verbatim>\<open>cap_drop\<close> list of some service contains a name
  that is not in the capability table, the workload generator fails as a whole: it returns
  an error and no output sequence, whatever the other services and directives are.
\<close>

theorem deployments_unknown_capability:
  assumes "u_services self = PDict svcs"
    and "(name, PDict cfg) \<in> set svcs"
    and "(key, PList caps) \<in> set cfg"
    and "key = ''cap_add'' \<or> key = ''cap_drop''"
    and "PStr cap \<in> set caps"
    and "map_of DOCKER_TO_KUBE_CAPABILITY_MAPPING cap = None"
  shows "\<exists>e. deployments shlex_split self = Inl e"
  by (rule deployments_fails[OF assms(1,2)], rule service_to_container_fails[OF assms(3)])
     (rule directive_step_unknown_capability[OF assms(4,5,6)])

theorem deployments_unknown_capability_witness:
  "(\<exists>e. deployments shlex_split_words
      \<lparr>u_services = PDict [(''web'', PDict [(''image'', PStr ''nginx''),
          (''cap_add'', PList [PStr ''NET_ADMIN'', PStr ''BOGUS''])])],
       u_project_name = PStr ''demo'', u_volumes = PNone\<rparr> = Inl e)
   \<and> deployments shlex_split_words
      \<lparr>u_services = PDict [(''web'', PDict [(''image'', PStr ''nginx''),
          (''cap_add'', PList [PStr ''NET_ADMIN'', PStr ''BOGUS''])])],
       u_project_name = PStr ''demo'', u_volumes = PNone\<rparr> = Inl KeyError"
proof
  show "\<exists>e. deployments shlex_split_words
      \<lparr>u_services = PDict [(''web'', PDict [(''image'', PStr ''nginx''),
          (''cap_add'', PList [PStr ''NET_ADMIN'', PStr ''BOGUS''])])],
       u_project_name = PStr ''demo'', u_volumes = PNone\<rparr> = Inl e"
    using deployments_unknown_capability
      [of "\<lparr>u_services = PDict [(''web'', PDict [(''image'', PStr ''nginx''),
             (''cap_add'', PList [PStr ''NET_ADMIN'', PStr ''BOGUS''])])],
           u_project_name = PStr ''demo'', u_volumes = PNone\<rparr>"
          "[(''web'', PDict [(''image'', PStr ''nginx''),
             (''cap_add'', PList [PStr ''NET_ADMIN'', PStr ''BOGUS''])])]"
          "''web''"
          "[(''image'', PStr ''nginx''), (''cap_add'', PList [PStr ''NET_ADMIN'', PStr ''BOGUS''])]"
          "''cap_add''" "[PStr ''NET_ADMIN'', PStr ''BOGUS'']" "''BOGUS''" shlex_split_words]
    by (simp add: DOCKER_TO_KUBE_CAPABILITY_MAPPING_def)
  show "deployments shlex_split_words
      \<lparr>u_services = PDict [(''web'', PDict [(''image'', PStr ''nginx''),
          (''cap_add'', PList [PStr ''NET_ADMIN'', PStr ''BOGUS''])])],
       u_project_name = PStr ''demo'', u_volumes = PNone\<rparr> = Inl KeyError"
    by code_simp
qed

subsection \<open>Volume declarations\<close>

lemma py_split_no_sep: "sep \<notin> set a \<Longrightarrow> py_split sep a = [a]"
  by (induction a) auto

lemma py_split_append: "sep \<notin> set a \<Longrightarrow> py_split sep (a @ sep # b) = a # py_split sep b"
  by (induction a) auto

text \<open>The three forms of the grammar \<^verbatim>\<open>[source:]destination[:permissions]\<close>, as the code
  reads them.\<close>

lemma parse_volume_three:
  "CHR '':'' \<notin> set src \<Longrightarrow> CHR '':'' \<notin> set dst \<Longrightarrow> CHR '':'' \<notin> set perms \<Longrightarrow>
   parse_volume (src @ CHR '':'' # dst @ CHR '':'' # perms) = (Some src, Some dst, Some perms)"
  by (simp add: parse_volume_def py_split_append py_split_no_sep)

lemma parse_volume_two:
  "CHR '':'' \<notin> set a \<Longrightarrow> CHR '':'' \<notin> set b \<Longrightarrow>
   parse_volume (a @ CHR '':'' # b) =
     (if b \<in> set DOCKER_VOL_PERMISSIONS then (None, Some a, Some b) else (Some a, Some b, None))"
  by (simp add: parse_volume_def py_split_append py_split_no_sep)

lemma parse_volume_one:
  "CHR '':'' \<notin> set dst \<Longrightarrow> parse_volume dst = (None, Some dst, None)"
  by (simp add: parse_volume_def)

text \<open>One declaration with a destination, in any state of the loop.\<close>

lemma volume_step_cases:
  assumes "parse_volume vol = (source, Some destination, permissions)" and "destination \<noteq> []"
  shows "(\<forall>src. source = Some src \<and> take 1 src = ''$'' \<longrightarrow>
            volume_step (volumes, mounts, name) vol =
              Inr (volumes, mounts, Some (slugify destination)))
       \<and> (\<forall>src. source = Some src \<and> take 1 src \<in> set [''~'', ''.'', ''/''] \<longrightarrow>
            volume_step (volumes, mounts, name) vol =
              Inr (volumes @ [PDict [(''name'', PStr (slugify destination)),
                                     (''hostPath'', PDict [(''path'', PStr src)])]],
                   mounts @ [PDict [(''mountPath'', PStr destination),
                                    (''name'', PStr (slugify destination)),
                                    (''readOnly'', PBool (permissions = Some ''ro''))]],
                   Some (slugify destination)))
       \<and> (\<forall>src. source = Some src \<and> src \<noteq> []
                 \<and> take 1 src \<notin> set [''$'', ''~'', ''.'', ''/''] \<longrightarrow>
            volume_step (volumes, mounts, name) vol = Inr (volumes, mounts, Some src))
       \<and> (source = None \<or> source = Some [] \<longrightarrow>
            volume_step (volumes, mounts, name) vol =
              Inr (volumes @ [PDict [(''name'', PStr (slugify destination)),
                                     (''emptyDir'', PDict [(''medium'', PStr [])])]],
                   mounts @ [PDict [(''mountPath'', PStr destination),
                                    (''name'', PStr (slugify destination)),
                                    (''readOnly'', PBool (permissions = Some ''ro''))]],
                   Some (slugify destination)))"
  using assms
  by (auto simp: volume_step_def opt_truthy_def volume_mount_def opt_val_def Let_def
        host_path_volume_def empty_dir_volume_def)

lemma for_each_snoc:
  "for_each body (xs @ [x]) s = bnd (for_each body xs s) (\<lambda>s'. body s' x)"
  by (induction xs arbitrary: s) (auto simp: bnd_def split: sum.splits)

lemma kube_volumes_snoc:
  assumes "kube_volumes self pre = Inr (volumes, mounts)"
  shows "\<exists>name. kube_volumes self (pre @ [vol]) =
           bnd (volume_step (volumes, mounts, name) vol) (\<lambda>(vs, ms, n). Inr (vs, ms))"
proof -
  from assms obtain name where "for_each volume_step pre ([], [], None) = Inr (volumes, mounts, name)"
    by (auto simp: kube_volumes_def bnd_def split: sum.splits)
  then have "kube_volumes self (pre @ [vol]) =
           bnd (volume_step (volumes, mounts, name) vol) (\<lambda>(vs, ms, n). Inr (vs, ms))"
    by (simp add: kube_volumes_def for_each_snoc bnd_def)
  then show ?thesis ..
qed

lemma perms_no_colon: "q \<in> set DOCKER_VOL_PERMISSIONS \<Longrightarrow> CHR '':'' \<notin> set q"
  by (auto simp: DOCKER_VOL_PERMISSIONS_def)

text \<open>
  C8. A declaration is written \<^verbatim>\<open>source:destination:permissions\<close> or
  \<^verbatim>\<open>source:destination\<close> when it has a source, and \<^verbatim>\<open>destination:permissions\<close> or
  \<^verbatim>\<open>destination\<close> when it has none. Wherever it stands in the list, the volume
  translator handles it in exactly one of four ways: a source that begins with \<^verbatim>\<open>$\<close>
  adds nothing; a source that begins with \<^verbatim>\<open>~\<close>, \<^verbatim>\<open>.\<close> or \<^verbatim>\<open>/\<close> adds a host-path
  volume and a mount whose path is the destination and whose \<^verbatim>\<open>readOnly\<close> flag is true
  exactly for the permissions \<^verbatim>\<open>ro\<close>; any other source is a named volume and adds
  nothing; no source adds an emptyDir volume and a mount.
\<close>

theorem kube_volumes_classification:
  assumes pre: "kube_volumes self pre = Inr (volumes, mounts)"
    and chars: "CHR '':'' \<notin> set src" "CHR '':'' \<notin> set dst" "CHR '':'' \<notin> set p"
    and ne: "src \<noteq> []" "dst \<noteq> []"
    and with_source:
      "(vol = src @ CHR '':'' # dst @ CHR '':'' # p \<and> perms = Some p)
       \<or> (vol = src @ CHR '':'' # dst \<and> dst \<notin> set DOCKER_VOL_PERMISSIONS \<and> perms = None)"
    and no_source:
      "(bare = dst @ CHR '':'' # q \<and> q \<in> set DOCKER_VOL_PERMISSIONS \<and> bperms = Some q)
       \<or> (bare = dst \<and> bperms = None)"
  shows "(hd src = CHR ''$'' \<longrightarrow> kube_volumes self (pre @ [vol]) = Inr (volumes, mounts))
       \<and> (hd src \<in> set ''~./'' \<longrightarrow>
            kube_volumes self (pre @ [vol]) =
              Inr (volumes @ [PDict [(''name'', PStr (slugify dst)),
                                     (''hostPath'', PDict [(''path'', PStr src)])]],
                   mounts @ [PDict [(''mountPath'', PStr dst), (''name'', PStr (slugify dst)),
                                    (''readOnly'', PBool (perms = Some ''ro''))]]))
       \<and> (hd src \<notin> set ''$~./'' \<longrightarrow> kube_volumes self (pre @ [vol]) = Inr (volumes, mounts))
       \<and> kube_volumes self (pre @ [bare]) =
            Inr (volumes @ [PDict [(''name'', PStr (slugify dst)),
                                   (''emptyDir'', PDict [(''medium'', PStr [])])]],
                 mounts @ [PDict [(''mountPath'', PStr dst), (''name'', PStr (slugify dst)),
                                  (''readOnly'', PBool (bperms = Some ''ro''))]])"
proof -
  from with_source chars have pv: "parse_volume vol = (Some src, Some dst, perms)"
    by (auto simp: parse_volume_three parse_volume_two)
  from no_source chars have pb: "parse_volume bare = (None, Some dst, bperms)"
    by (auto simp: parse_volume_two parse_volume_one perms_no_colon)
  from ne(1) have hd: "take 1 src = [hd src]" by (cases src) auto
  from kube_volumes_snoc[OF pre, of vol] obtain n1 where
    v: "kube_volumes self (pre @ [vol]) =
           bnd (volume_step (volumes, mounts, n1) vol) (\<lambda>(vs, ms, n). Inr (vs, ms))" ..
  from kube_volumes_snoc[OF pre, of bare] obtain n2 where
    b: "kube_volumes self (pre @ [bare]) =
           bnd (volume_step (volumes, mounts, n2) bare) (\<lambda>(vs, ms, n). Inr (vs, ms))" ..
  note cases1 = volume_step_cases[OF pv ne(2), of volumes mounts n1]
  note cases2 = volume_step_cases[OF pb ne(2), of volumes mounts n2]
  have 1: "hd src = CHR ''$'' \<longrightarrow> kube_volumes self (pre @ [vol]) = Inr (volumes, mounts)"
    using cases1 hd by (simp add: v bnd_def)
  have 2: "hd src \<in> set ''~./'' \<longrightarrow>
            kube_volumes self (pre @ [vol]) =
              Inr (volumes @ [PDict [(''name'', PStr (slugify dst)),
                                     (''hostPath'', PDict [(''path'', PStr src)])]],
                   mounts @ [PDict [(''mountPath'', PStr dst), (''name'', PStr (slugify dst)),
                                    (''readOnly'', PBool (perms = Some ''ro''))]])"
    using cases1 hd by (auto simp: v bnd_def)
  have 3: "hd src \<notin> set ''$~./'' \<longrightarrow> kube_volumes self (pre @ [vol]) = Inr (volumes, mounts)"
    using cases1 hd ne(1) by (auto simp: v bnd_def)
  have 4: "kube_volumes self (pre @ [bare]) =
            Inr (volumes @ [PDict [(''name'', PStr (slugify dst)),
                                   (''emptyDir'', PDict [(''medium'', PStr [])])]],
                 mounts @ [PDict [(''mountPath'', PStr dst), (''name'', PStr (slugify dst)),
                                  (''readOnly'', PBool (bperms = Some ''ro''))]])"
    using cases2 by (simp add: b bnd_def)
  from 1 2 3 4 show ?thesis by blast
qed


lemma kube_volumes_nil: "kube_volumes self [] = Inr ([], [])"
  by (simp add: kube_volumes_def bnd_def)

theorem kube_volumes_classification_witness:
  "kube_volumes PNone [''$HOME/www:/var/www''] = Inr ([], [])
   \<and> kube_volumes PNone [''/srv/www:/var/www/html:ro''] =
       Inr ([PDict [(''name'', PStr ''var-www-html''),
                    (''hostPath'', PDict [(''path'', PStr ''/srv/www'')])]],
            [PDict [(''mountPath'', PStr ''/var/www/html''), (''name'', PStr ''var-www-html''),
                    (''readOnly'', PBool True)]])
   \<and> kube_volumes PNone [''data:/var/lib/data''] = Inr ([], [])
   \<and> kube_volumes PNone [''/var/www:rw''] =
       Inr ([PDict [(''name'', PStr ''var-www''),
                    (''emptyDir'', PDict [(''medium'', PStr [])])]],
            [PDict [(''mountPath'', PStr ''/var/www''), (''name'', PStr ''var-www''),
                    (''readOnly'', PBool False)]])
   \<and> kube_volumes PNone [''/srv/www:/var/www/html:ro'', ''/tmp/cache''] =
       Inr ([PDict [(''name'', PStr ''var-www-html''),
                    (''hostPath'', PDict [(''path'', PStr ''/srv/www'')])],
             PDict [(''name'', PStr ''tmp-cache''),
                    (''emptyDir'', PDict [(''medium'', PStr [])])]],
            [PDict [(''mountPath'', PStr ''/var/www/html''), (''name'', PStr ''var-www-html''),
                    (''readOnly'', PBool True)],
             PDict [(''mountPath'', PStr ''/tmp/cache''), (''name'', PStr ''tmp-cache''),
                    (''readOnly'', PBool False)]])"
proof -
  have a: "kube_volumes PNone [''$HOME/www:/var/www''] = Inr ([], [])
      \<and> kube_volumes PNone [''/var/www:rw''] =
       Inr ([PDict [(''name'', PStr ''var-www''),
                    (''emptyDir'', PDict [(''medium'', PStr [])])]],
            [PDict [(''mountPath'', PStr ''/var/www''), (''name'', PStr ''var-www''),
                    (''readOnly'', PBool False)]])"
    using kube_volumes_classification[of PNone "[]" "[]" "[]" "''$HOME/www''" "''/var/www''" "[]"
        "''$HOME/www:/var/www''" None "''/var/www:rw''" "''rw''" "Some ''rw''"]
    by (simp add: kube_volumes_nil DOCKER_VOL_PERMISSIONS_def slugify_def)
  have b: "kube_volumes PNone [''/srv/www:/var/www/html:ro''] =
       Inr ([PDict [(''name'', PStr ''var-www-html''),
                    (''hostPath'', PDict [(''path'', PStr ''/srv/www'')])]],
            [PDict [(''mountPath'', PStr ''/var/www/html''), (''name'', PStr ''var-www-html''),
                    (''readOnly'', PBool True)]])"
    using kube_volumes_classification[of PNone "[]" "[]" "[]" "''/srv/www''" "''/var/www/html''" "''ro''"
        "''/srv/www:/var/www/html:ro''" "Some ''ro''" "''/var/www/html''" "[]" None]
    by (simp add: kube_volumes_nil DOCKER_VOL_PERMISSIONS_def slugify_def)
  have c: "kube_volumes PNone [''data:/var/lib/data''] = Inr ([], [])"
    using kube_volumes_classification[of PNone "[]" "[]" "[]" "''data''" "''/var/lib/data''" "[]"
        "''data:/var/lib/data''" None "''/var/lib/data''" "[]" None]
    by (simp add: kube_volumes_nil DOCKER_VOL_PERMISSIONS_def slugify_def)
  have d: "kube_volumes PNone [''/srv/www:/var/www/html:ro'', ''/tmp/cache''] =
       Inr ([PDict [(''name'', PStr ''var-www-html''),
                    (''hostPath'', PDict [(''path'', PStr ''/srv/www'')])],
             PDict [(''name'', PStr ''tmp-cache''),
                    (''emptyDir'', PDict [(''medium'', PStr [])])]],
            [PDict [(''mountPath'', PStr ''/var/www/html''), (''name'', PStr ''var-www-html''),
                    (''readOnly'', PBool True)],
             PDict [(''mountPath'', PStr ''/tmp/cache''), (''name'', PStr ''tmp-cache''),
                    (''readOnly'', PBool False)]])"
    using kube_volumes_classification[OF b, of "''data''" "''/tmp/cache''" "[]" "''data:/tmp/cache''" None
        "''/tmp/cache''" "[]" None]
    by (simp add: DOCKER_VOL_PERMISSIONS_def slugify_def)
  from a b c d show ?thesis by blast
qed

subsection \<open>Loops that only append\<close>

lemma for_each_invariant:
  assumes "for_each body xs s = Inr s'" "P s" "\<And>s x s'. P s \<Longrightarrow> body s x = Inr s' \<Longrightarrow> P s'"
  shows "P s'"
  using assms(1,2)
proof (induction xs arbitrary: s)
  case Nil
  then show ?case by simp
next
  case (Cons x xs)
  from Cons.prems(1) obtain s1 where s1: "body s x = Inr s1" "for_each body xs s1 = Inr s'"
    by (auto simp: bnd_def split: sum.splits)
  from assms(3)[OF Cons.prems(2) s1(1)] have "P s1" .
  from Cons.IH[OF s1(2) this] show ?case .
qed










subsection \<open>Link aliases\<close>














subsection \<open>The volumes directive\<close>

lemma directive_step_volumes:
  "directive_step shlex_split st (''volumes'', value) = Inl TypeError"
  by (cases st) (simp add: directive_step_def key_not_ignored kube_volumes_call1_def bnd_def)

lemma py_setitem_other:
  "py_setitem c k v = Inr c' \<Longrightarrow> k' \<noteq> k \<Longrightarrow> py_get c' k' = py_get c k'"
proof (cases c)
  case (PDict d)
  have "k' \<noteq> k \<Longrightarrow> map_of (dict_set d k v) k' = map_of d k'"
    by (induction d) auto
  then show "py_setitem c k v = Inr c' \<Longrightarrow> k' \<noteq> k \<Longrightarrow> py_get c' k' = py_get c k'"
    using PDict by auto
qed auto

lemma set_security_context_other:
  "set_security_context c k v = Inr c' \<Longrightarrow> k' \<noteq> ''securityContext'' \<Longrightarrow> py_get c' k' = py_get c k'"
  by (auto simp: set_security_context_def bnd_def split: sum.splits dest: py_setitem_other)

lemma ensure_capabilities_other:
  "ensure_capabilities c = Inr c' \<Longrightarrow> k' \<noteq> ''securityContext'' \<Longrightarrow> py_get c' k' = py_get c k'"
  by (auto simp: ensure_capabilities_def bnd_def split: sum.splits if_splits dest: set_security_context_other)

lemma capability_step_other:
  "capability_step which c cap = Inr c' \<Longrightarrow> k' \<noteq> ''securityContext'' \<Longrightarrow> py_get c' k' = py_get c k'"
  by (auto simp: capability_step_def bnd_def split: sum.splits if_splits dest: set_security_context_other)


lemma capability_loop_other:
  assumes "for_each (capability_step which) caps c = Inr c'" "k' \<noteq> ''securityContext''"
  shows "py_get c' k' = py_get c k'"
  by (rule for_each_invariant[OF assms(1), where P = "\<lambda>x. py_get x k' = py_get c k'"])
     (use assms(2) capability_step_other in auto)

lemma directive_step_ignored:
  "key \<in> set IGNORE_DIRECTIVES \<Longrightarrow> directive_step shlex_split (c, vols) (key, value) = Inr (c, vols)"
  by (simp add: directive_step_def)

lemma directive_step_other:
  "key \<notin> set IGNORE_DIRECTIVES \<Longrightarrow> key \<notin> set handled_keys \<Longrightarrow>
   directive_step shlex_split (c, vols) (key, value) =
     bnd (py_setitem c key value) (\<lambda>container. Inr (container, vols))"
  by (simp add: directive_step_def handled_keys_def)

lemma directive_step_command:
  "directive_step shlex_split (c, vols) (''command'', value) =
     bnd (tokenize shlex_split value) (\<lambda>args.
     bnd (py_setitem c ''args'' args) (\<lambda>container. Inr (container, vols)))"
  by (simp add: directive_step_def IGNORE_DIRECTIVES_def)

lemma directive_step_container_name:
  "directive_step shlex_split (c, vols) (''container_name'', value) =
     bnd (py_setitem c ''name'' value) (\<lambda>container. Inr (container, vols))"
  by (simp add: directive_step_def IGNORE_DIRECTIVES_def)

lemma directive_step_entrypoint:
  "directive_step shlex_split (c, vols) (''entrypoint'', value) =
     bnd (tokenize shlex_split value) (\<lambda>command.
     bnd (py_setitem c ''command'' command) (\<lambda>container. Inr (container, vols)))"
  by (simp add: directive_step_def IGNORE_DIRECTIVES_def)

lemma directive_step_environment:
  "directive_step shlex_split (c, vols) (''environment'', value) =
     bnd (expand_env_vars value) (\<lambda>expanded_vars.
       if expanded_vars \<noteq> [] then
         bnd (py_setitem c ''env'' (PList expanded_vars)) (\<lambda>container. Inr (container, vols))
       else Inr (c, vols))"
  by (simp add: directive_step_def IGNORE_DIRECTIVES_def)

lemma directive_step_ports:
  "directive_step shlex_split (c, vols) (''ports'', value) =
     bnd (py_get c ''ports'') (\<lambda>ports.
     bnd (if \<not> truthy ports then py_setitem c ''ports'' (PList []) else Inr c) (\<lambda>container.
     bnd (py_getitem container ''ports'') (\<lambda>existing_ports.
     bnd (add_container_ports value existing_ports) (\<lambda>existing_ports.
     bnd (py_setitem container ''ports'' existing_ports) (\<lambda>container.
     Inr (container, vols))))))"
  by (simp add: directive_step_def IGNORE_DIRECTIVES_def)

lemma directive_step_privileged:
  "directive_step shlex_split (c, vols) (''privileged'', value) =
     bnd (set_security_context c ''privileged'' value) (\<lambda>container. Inr (container, vols))"
  by (simp add: directive_step_def IGNORE_DIRECTIVES_def)

lemma directive_step_read_only:
  "directive_step shlex_split (c, vols) (''read_only'', value) =
     bnd (set_security_context c ''readOnlyRootFileSystem'' value) (\<lambda>container.
     Inr (container, vols))"
  by (simp add: directive_step_def IGNORE_DIRECTIVES_def)

lemma directive_step_stdin_open:
  "directive_step shlex_split (c, vols) (''stdin_open'', value) =
     bnd (py_setitem c ''stdin'' value) (\<lambda>container. Inr (container, vols))"
  by (simp add: directive_step_def IGNORE_DIRECTIVES_def)

lemma directive_step_working_dir:
  "directive_step shlex_split (c, vols) (''working_dir'', value) =
     bnd (py_setitem c ''workingDir'' value) (\<lambda>container. Inr (container, vols))"
  by (simp add: directive_step_def IGNORE_DIRECTIVES_def)

lemma expose_ignored: "''expose'' \<in> set IGNORE_DIRECTIVES"
  by (simp add: IGNORE_DIRECTIVES_def)

lemmas directive_step_keys = directive_step_cap_add directive_step_cap_drop
  directive_step_command directive_step_container_name directive_step_entrypoint
  directive_step_environment directive_step_ports directive_step_privileged
  directive_step_read_only directive_step_stdin_open directive_step_volumes
  directive_step_working_dir


lemma py_setitem_same: "py_setitem c k v = Inr c' \<Longrightarrow> py_get c' k = Inr v"
proof (cases c)
  case (PDict d)
  have "map_of (dict_set d k v) k = Some v"
    by (induction d) auto
  then show "py_setitem c k v = Inr c' \<Longrightarrow> py_get c' k = Inr v"
    using PDict by auto
qed auto

lemma directive_step_handled:
  assumes "directive_step shlex_split (c, vols) (key, value) = Inr (c', vols')"
    and "key \<in> set handled_keys" "key \<notin> set IGNORE_DIRECTIVES"
  shows "vols' = vols \<and> py_get c' ''volumeMounts'' = py_get c ''volumeMounts''"
proof -
  from assms(2) have "key = ''cap_add'' \<or> key = ''cap_drop'' \<or> key = ''command''
      \<or> key = ''container_name'' \<or> key = ''entrypoint'' \<or> key = ''environment''
      \<or> key = ''ports'' \<or> key = ''expose'' \<or> key = ''privileged'' \<or> key = ''read_only''
      \<or> key = ''stdin_open'' \<or> key = ''volumes'' \<or> key = ''working_dir''"
    by (simp add: handled_keys_def)
  then show ?thesis
  proof (elim disjE)
    assume "key = ''cap_add''"
    with assms(1) show ?thesis
      by (auto simp: directive_step_cap_add bnd_def split: sum.splits
            dest!: ensure_capabilities_other[where k' = "''volumeMounts''"]
                   capability_loop_other[where k' = "''volumeMounts''"])
  next
    assume "key = ''cap_drop''"
    with assms(1) show ?thesis
      by (auto simp: directive_step_cap_drop bnd_def split: sum.splits
            dest!: ensure_capabilities_other[where k' = "''volumeMounts''"]
                   capability_loop_other[where k' = "''volumeMounts''"])
  next
    assume "key = ''command''"
    with assms(1) show ?thesis
      by (auto simp: directive_step_command bnd_def split: sum.splits
            dest!: py_setitem_other[where k' = "''volumeMounts''"])
  next
    assume "key = ''container_name''"
    with assms(1) show ?thesis
      by (auto simp: directive_step_container_name bnd_def split: sum.splits
            dest!: py_setitem_other[where k' = "''volumeMounts''"])
  next
    assume "key = ''entrypoint''"
    with assms(1) show ?thesis
      by (auto simp: directive_step_entrypoint bnd_def split: sum.splits
            dest!: py_setitem_other[where k' = "''volumeMounts''"])
  next
    assume "key = ''environment''"
    with assms(1) show ?thesis
      by (auto simp: directive_step_environment bnd_def split: sum.splits if_splits
            dest!: py_setitem_other[where k' = "''volumeMounts''"])
  next
    assume "key = ''ports''"
    with assms(1) show ?thesis
      by (auto simp: directive_step_ports bnd_def split: sum.splits if_splits
            dest!: py_setitem_other[where k' = "''volumeMounts''"])
  next
    assume "key = ''expose''"
    with assms(3) expose_ignored show ?thesis by simp
  next
    assume "key = ''privileged''"
    with assms(1) show ?thesis
      by (auto simp: directive_step_privileged bnd_def split: sum.splits
            dest!: set_security_context_other[where k' = "''volumeMounts''"])
  next
    assume "key = ''read_only''"
    with assms(1) show ?thesis
      by (auto simp: directive_step_read_only bnd_def split: sum.splits
            dest!: set_security_context_other[where k' = "''volumeMounts''"])
  next
    assume "key = ''stdin_open''"
    with assms(1) show ?thesis
      by (auto simp: directive_step_stdin_open bnd_def split: sum.splits
            dest!: py_setitem_other[where k' = "''volumeMounts''"])
  next
    assume "key = ''volumes''"
    with assms(1) show ?thesis by (simp add: directive_step_volumes)
  next
    assume "key = ''working_dir''"
    with assms(1) show ?thesis
      by (auto simp: directive_step_working_dir bnd_def split: sum.splits
            dest!: py_setitem_other[where k' = "''volumeMounts''"])
  qed
qed

lemma directive_step_effect:
  assumes "directive_step shlex_split (c, vols) (key, value) = Inr (c', vols')"
  shows "vols' = vols \<and>
         py_get c' ''volumeMounts'' =
           (if key = ''volumeMounts'' then Inr value else py_get c ''volumeMounts'')"
proof (cases "key \<in> set IGNORE_DIRECTIVES")
  case True
  then have "key \<noteq> ''volumeMounts''" by (auto simp: IGNORE_DIRECTIVES_def)
  with assms True show ?thesis by (simp add: directive_step_ignored)
next
  case False
  show ?thesis
  proof (cases "key \<in> set handled_keys")
    case True
    then have "key \<noteq> ''volumeMounts''" by (auto simp: handled_keys_def)
    with directive_step_handled[OF assms True False] show ?thesis by simp
  next
    case notin: False
    from assms have set: "py_setitem c key value = Inr c'" and v: "vols' = vols"
      by (auto simp: directive_step_other[OF False notin] bnd_def split: sum.splits)
    show ?thesis
    proof (cases "key = ''volumeMounts''")
      case True
      with py_setitem_same[OF set] v show ?thesis by simp
    next
      case False
      then have "''volumeMounts'' \<noteq> key" by simp
      from py_setitem_other[OF set this] v False show ?thesis by simp
    qed
  qed
qed


lemma for_each_invariant_mem:
  assumes "for_each body xs s = Inr s'" "P s" "set xs \<subseteq> A"
    "\<And>s x s'. x \<in> A \<Longrightarrow> P s \<Longrightarrow> body s x = Inr s' \<Longrightarrow> P s'"
  shows "P s'"
  using assms(1,2,3)
proof (induction xs arbitrary: s)
  case Nil
  then show ?case by simp
next
  case (Cons x xs)
  from Cons.prems(1) obtain s1 where s1: "body s x = Inr s1" "for_each body xs s1 = Inr s'"
    by (auto simp: bnd_def split: sum.splits)
  from Cons.prems(3) have "x \<in> A" "set xs \<subseteq> A" by auto
  from assms(4)[OF this(1) Cons.prems(2) s1(1)] have "P s1" .
  from Cons.IH[OF s1(2) this \<open>set xs \<subseteq> A\<close>] show ?case .
qed

lemma directive_loop_effect:
  assumes "for_each (directive_step shlex_split) cfg (new_container name, []) = Inr (c, vols)"
  shows "vols = [] \<and> mounts_from cfg c"
proof -
  have "(\<lambda>st. snd st = [] \<and> mounts_from cfg (fst st)) (c, vols)"
  proof (rule for_each_invariant_mem[where A = "set cfg", OF assms])
    show "snd (new_container name, []) = [] \<and> mounts_from cfg (fst (new_container name, []))"
      by (simp add: new_container_def mounts_from_def)
    show "set cfg \<subseteq> set cfg" by simp
  next
    fix s x s'
    assume x: "x \<in> set cfg" and P: "snd s = [] \<and> mounts_from cfg (fst s)"
      and step: "directive_step shlex_split s x = Inr s'"
    obtain c0 v0 where s: "s = (c0, v0)" by (cases s)
    obtain c1 v1 where s': "s' = (c1, v1)" by (cases s')
    obtain key val where xx: "x = (key, val)" by (cases x)
    from directive_step_effect[OF step[unfolded s s' xx]] P x
    show "snd s' = [] \<and> mounts_from cfg (fst s')"
      by (auto simp: s s' xx mounts_from_def)
  qed
  then show ?thesis by simp
qed

lemma k8s_step_effect:
  assumes "k8s_step (c, pod) item = Inr (c', pod')"
  shows "py_get c' ''volumeMounts'' = py_get c ''volumeMounts''"
  using assms
  by (cases item)
     (auto simp: k8s_step_def bnd_def split: if_splits sum.splits
        dest!: set_security_context_other[where k' = "''volumeMounts''"])

lemma k8s_loop_effect:
  assumes "for_each k8s_step items (c, pod) = Inr (c', pod')"
  shows "py_get c' ''volumeMounts'' = py_get c ''volumeMounts''"
proof -
  have "(\<lambda>st. py_get (fst st) ''volumeMounts'' = py_get c ''volumeMounts'') (c', pod')"
  proof (rule for_each_invariant[OF assms])
    show "py_get (fst (c, pod)) ''volumeMounts'' = py_get c ''volumeMounts''" by simp
  next
    fix s x s'
    assume P: "py_get (fst s) ''volumeMounts'' = py_get c ''volumeMounts''"
      and step: "k8s_step s x = Inr s'"
    obtain c0 p0 where s: "s = (c0, p0)" by (cases s)
    obtain c1 p1 where s': "s' = (c1, p1)" by (cases s')
    from k8s_step_effect[OF step[unfolded s s']] P
    show "py_get (fst s') ''volumeMounts'' = py_get c ''volumeMounts''"
      by (simp add: s s')
  qed
  then show ?thesis by simp
qed

lemma service_to_container_effect:
  assumes "service_to_container shlex_split name service = Inr (c, vols, pod)"
  shows "\<exists>cfg. service = PDict cfg \<and> vols = [] \<and> mounts_from cfg c"
proof -
  from assms obtain cfg where cfg: "service = PDict cfg"
    by (cases service) (auto simp: service_to_container_def bnd_def)
  from assms obtain c0 where
    loop: "for_each (directive_step shlex_split) cfg (new_container name, []) = Inr (c0, vols)"
    and rest: "c = c0 \<or> (\<exists>items pod0. for_each k8s_step items (c0, pod0) = Inr (c, pod))"
    unfolding cfg service_to_container_def
    by (auto simp: bnd_def split: sum.splits if_splits prod.splits)
  from directive_loop_effect[OF loop] have 1: "vols = []" "mounts_from cfg c0" by auto
  from rest have "py_get c ''volumeMounts'' = py_get c0 ''volumeMounts''"
    by (auto dest: k8s_loop_effect)
  with 1 cfg show ?thesis by (auto simp: mounts_from_def)
qed


lemma deployment_template_pod:
  "pod_volumes (deployment_template project_name name c [] pod) = Inr PNone"
  "pod_containers (deployment_template project_name name c [] pod) = Inr (PList [c])"
  by (simp_all add: deployment_template_def pod_volumes_def pod_containers_def pod_spec_def
        bnd_def Let_def split: option.splits)

lemma deployment_step_effect:
  assumes "deployment_step shlex_split project_name ts (name, service) = Inr ts'"
  shows "ts' = ts \<or>
         (\<exists>c pod cfg. service = PDict cfg \<and> mounts_from cfg c \<and>
            ts' = ts @ [deployment_template project_name name c [] pod])"
proof -
  from assms obtain c vols pod where
    stc: "service_to_container shlex_split name service = Inr (c, vols, pod)"
    by (cases "service_to_container shlex_split name service")
       (auto simp: deployment_step_def bnd_def)
  from service_to_container_effect[OF stc] obtain cfg where
    cfg: "service = PDict cfg" "vols = []" "mounts_from cfg c" by blast
  from assms stc cfg show ?thesis
    by (auto simp: deployment_step_def bnd_def Let_def split: if_splits)
qed

lemma deployment_template_name:
  "resource_name (deployment_template project_name name c vols pod) = Inr (PStr name)"
  by (simp add: deployment_template_def resource_name_def bnd_def Let_def)

lemma deployments_loop_clean:
  assumes "for_each (deployment_step shlex_split project_name) svcs [] = Inr templates"
  shows "list_all (workload_clean svcs) templates"
proof (rule for_each_invariant_mem[where A = "set svcs", OF assms])
  show "list_all (workload_clean svcs) []" by simp
  show "set svcs \<subseteq> set svcs" by simp
next
  fix ts x ts'
  assume x: "x \<in> set svcs" and P: "list_all (workload_clean svcs) ts"
    and step: "deployment_step shlex_split project_name ts x = Inr ts'"
  obtain name service where xx: "x = (name, service)" by (cases x)
  from deployment_step_effect[OF step[unfolded xx]]
  show "list_all (workload_clean svcs) ts'"
  proof
    assume "ts' = ts"
    with P show ?thesis by simp
  next
    assume "\<exists>c pod cfg. service = PDict cfg \<and> mounts_from cfg c \<and>
            ts' = ts @ [deployment_template project_name name c [] pod]"
    then obtain c pod cfg where 1: "service = PDict cfg" "mounts_from cfg c"
      "ts' = ts @ [deployment_template project_name name c [] pod]" by blast
    from 1(2) obtain v where v: "py_get c ''volumeMounts'' = Inr v"
      "v = PNone \<or> (''volumeMounts'', v) \<in> set cfg" by (auto simp: mounts_from_def)
    from x xx 1(1) have "(name, PDict cfg) \<in> set svcs" by simp
    with v have "workload_clean svcs (deployment_template project_name name c [] pod)"
      unfolding workload_clean_def deployment_template_pod deployment_template_name by blast
    with P 1(3) show ?thesis by simp
  qed
qed

text \<open>
  C10 (as amended). A service whose configuration has a \<^verbatim>\<open>volumes\<close> directive with a
  non-empty declaration list makes the workload generator fail as a whole: the call of the
  volume translator with one argument raises before any resource is returned. So no
  emitted workload resource has pod-level volumes, and the container of an emitted
  resource has \<^verbatim>\<open>volumeMounts\<close> only when the configuration of the service that the
  resource is named after has a directive of that very name, which the last branch of the
  chain copies as it is.
\<close>

theorem deployments_volumes_directive:
  "(\<forall>svcs name cfg decls. u_services self = PDict svcs \<and> (name, PDict cfg) \<in> set svcs
        \<and> (''volumes'', PList decls) \<in> set cfg \<and> decls \<noteq> [] \<longrightarrow>
      (\<exists>e. deployments shlex_split self = Inl e))
   \<and> (\<forall>templates t. deployments shlex_split self = Inr templates \<and> t \<in> set templates \<longrightarrow>
        pod_volumes t = Inr PNone \<and>
        (\<exists>svcs name cfg c v. u_services self = PDict svcs \<and> (name, PDict cfg) \<in> set svcs
           \<and> resource_name t = Inr (PStr name)
           \<and> pod_containers t = Inr (PList [c]) \<and> py_get c ''volumeMounts'' = Inr v
           \<and> (v = PNone \<or> (''volumeMounts'', v) \<in> set cfg)))"
proof (intro conjI allI impI)
  fix svcs name cfg decls
  assume a: "u_services self = PDict svcs \<and> (name, PDict cfg) \<in> set svcs
        \<and> (''volumes'', PList decls) \<in> set cfg \<and> decls \<noteq> []"
  have "\<exists>e. service_to_container shlex_split name (PDict cfg) = Inl e"
    by (rule service_to_container_fails[of "(''volumes'', PList decls)"])
       (use a in \<open>simp_all add: directive_step_volumes\<close>)
  with a show "\<exists>e. deployments shlex_split self = Inl e"
    by (blast intro: deployments_fails)
next
  fix templates t
  assume a: "deployments shlex_split self = Inr templates \<and> t \<in> set templates"
  then have ne: "templates \<noteq> []" by auto
  with a obtain svcs where svcs: "u_services self = PDict svcs"
    and loop: "for_each (deployment_step shlex_split (u_project_name self)) svcs [] = Inr templates"
    by (cases "u_services self")
       (auto simp: deployments_def bnd_def split: if_splits)
  from deployments_loop_clean[OF loop] a have clean: "workload_clean svcs t"
    by (auto simp: list_all_iff)
  then show "pod_volumes t = Inr PNone" by (simp add: workload_clean_def)
  from clean svcs
  show "\<exists>svcs name cfg c v. u_services self = PDict svcs \<and> (name, PDict cfg) \<in> set svcs
           \<and> resource_name t = Inr (PStr name)
           \<and> pod_containers t = Inr (PList [c]) \<and> py_get c ''volumeMounts'' = Inr v
           \<and> (v = PNone \<or> (''volumeMounts'', v) \<in> set cfg)"
    unfolding workload_clean_def by blast
qed

lemma mounts_pair_example_run:
  "deployments shlex_split_words mounts_pair_example =
     Inr [PDict [(''apiVersion'', PStr ''extensions/v1beta1''), (''kind'', PStr ''Deployment''),
            (''metadata'', PDict [(''name'', PStr ''web''),
               (''labels'', PDict [(''app'', PStr ''demo''), (''service'', PStr ''web'')]),
               (''namespace'', PStr ''demo'')]),
            (''spec'', PDict [(''template'', PDict [
               (''metadata'', PDict [(''labels'',
                  PDict [(''app'', PStr ''demo''), (''service'', PStr ''web'')])]),
               (''spec'', PDict [(''containers'', PList [PDict [
                  (''name'', PStr ''web''), (''securityContext'', PDict []),
                  (''state'', PStr ''present''), (''volumeMounts'', PStr ''data'')]])]),
               (''replicas'', PInt 1),
               (''strategy'', PDict [(''type'', PStr ''RollingUpate'')])])])],
          PDict [(''apiVersion'', PStr ''extensions/v1beta1''), (''kind'', PStr ''Deployment''),
            (''metadata'', PDict [(''name'', PStr ''db''),
               (''labels'', PDict [(''app'', PStr ''demo''), (''service'', PStr ''db'')]),
               (''namespace'', PStr ''demo'')]),
            (''spec'', PDict [(''template'', PDict [
               (''metadata'', PDict [(''labels'',
                  PDict [(''app'', PStr ''demo''), (''service'', PStr ''db'')])]),
               (''spec'', PDict [(''containers'', PList [PDict [
                  (''name'', PStr ''db''), (''securityContext'', PDict []),
                  (''state'', PStr ''present''), (''image'', PStr ''postgres'')]])]),
               (''replicas'', PInt 1),
               (''strategy'', PDict [(''type'', PStr ''RollingUpate'')])])])]]"
  by code_simp

theorem deployments_volumes_directive_witness:
  "(\<exists>e. deployments shlex_split_words volumes_example = Inl e)
   \<and> (\<exists>t1 t2 c2. deployments shlex_split_words mounts_pair_example = Inr [t1, t2]
         \<and> resource_name t2 = Inr (PStr ''db'')
         \<and> pod_volumes t2 = Inr PNone \<and> pod_containers t2 = Inr (PList [c2])
         \<and> py_get c2 ''volumeMounts'' = Inr PNone)"
proof
  from deployments_volumes_directive[of volumes_example shlex_split_words]
  have "\<forall>svcs name cfg decls. u_services volumes_example = PDict svcs
          \<and> (name, PDict cfg) \<in> set svcs \<and> (''volumes'', PList decls) \<in> set cfg
          \<and> decls \<noteq> [] \<longrightarrow>
        (\<exists>e. deployments shlex_split_words volumes_example = Inl e)"
    by blast
  from this[rule_format,
      of "[(''web'', PDict [(''image'', PStr ''nginx''),
                            (''volumes'', PList [PStr ''/srv/www:/var/www''])])]"
         "''web''"
         "[(''image'', PStr ''nginx''), (''volumes'', PList [PStr ''/srv/www:/var/www''])]"
         "[PStr ''/srv/www:/var/www'']"]
  show "\<exists>e. deployments shlex_split_words volumes_example = Inl e"
    by (simp add: volumes_example_def)
next
  let ?ts = "projr (deployments shlex_split_words mounts_pair_example)"
  let ?t1 = "?ts ! 0" and ?t2 = "?ts ! 1"
  have run: "deployments shlex_split_words mounts_pair_example = Inr [?t1, ?t2]"
    by (simp add: mounts_pair_example_run)
  have name2: "resource_name ?t2 = Inr (PStr ''db'')"
    by (simp add: mounts_pair_example_run resource_name_def bnd_def)
  from deployments_volumes_directive[of mounts_pair_example shlex_split_words]
  have "\<forall>templates t. deployments shlex_split_words mounts_pair_example = Inr templates
          \<and> t \<in> set templates \<longrightarrow>
        pod_volumes t = Inr PNone \<and>
        (\<exists>svcs name cfg c v. u_services mounts_pair_example = PDict svcs
           \<and> (name, PDict cfg) \<in> set svcs \<and> resource_name t = Inr (PStr name)
           \<and> pod_containers t = Inr (PList [c]) \<and> py_get c ''volumeMounts'' = Inr v
           \<and> (v = PNone \<or> (''volumeMounts'', v) \<in> set cfg))"
    by blast
  from this[rule_format, of "[?t1, ?t2]" ?t2] run
  obtain svcs name cfg c v where own: "pod_volumes ?t2 = Inr PNone"
    "u_services mounts_pair_example = PDict svcs" "(name, PDict cfg) \<in> set svcs"
    "resource_name ?t2 = Inr (PStr name)" "pod_containers ?t2 = Inr (PList [c])"
    "py_get c ''volumeMounts'' = Inr v" "v = PNone \<or> (''volumeMounts'', v) \<in> set cfg"
    by auto
  from own(4) name2 have "name = ''db''" by simp
  with own(2,3) have "cfg = [(''image'', PStr ''postgres'')]"
    by (auto simp: mounts_pair_example_def)
  with own(7) have "v = PNone" by auto
  with run name2 own(1,5,6)
  show "\<exists>t1 t2 c2. deployments shlex_split_words mounts_pair_example = Inr [t1, t2]
         \<and> resource_name t2 = Inr (PStr ''db'')
         \<and> pod_volumes t2 = Inr PNone \<and> pod_containers t2 = Inr (PList [c2])
         \<and> py_get c2 ''volumeMounts'' = Inr PNone"
    by blast
qed

text \<open>The claim as first stated (no emitted workload resource ever has
  \<^verbatim>\<open>volumeMounts\<close>) fails on a service with a directive of that name.\<close>

theorem deployments_volume_mounts_counterexample:
  "deployments shlex_split_words mounts_example =
     Inr [PDict [(''apiVersion'', PStr ''extensions/v1beta1''), (''kind'', PStr ''Deployment''),
            (''metadata'', PDict [(''name'', PStr ''web''),
               (''labels'', PDict [(''app'', PStr ''demo''), (''service'', PStr ''web'')]),
               (''namespace'', PStr ''demo'')]),
            (''spec'', PDict [(''template'', PDict [
               (''metadata'', PDict [(''labels'',
                  PDict [(''app'', PStr ''demo''), (''service'', PStr ''web'')])]),
               (''spec'', PDict [(''containers'', PList [PDict [
                  (''name'', PStr ''web''), (''securityContext'', PDict []),
                  (''state'', PStr ''present''), (''image'', PStr ''nginx''),
                  (''volumeMounts'', PList [PDict [(''name'', PStr ''data''),
                                                   (''mountPath'', PStr ''/data'')]])]])]),
               (''replicas'', PInt 1),
               (''strategy'', PDict [(''type'', PStr ''RollingUpate'')])])])]]"
  by code_simp

subsection \<open>Repeated evaluation\<close>

text \<open>On the example the store-passing generator and the generator of the earlier
  sections agree on the first evaluation.\<close>

lemma aliasing_example_first_run:
  "deployments shlex_split_words aliasing_example =
     Inr [PDict [(''apiVersion'', PStr ''extensions/v1beta1''), (''kind'', PStr ''Deployment''),
        (''metadata'', PDict [(''name'', PStr ''web''),
           (''labels'', PDict [(''app'', PStr ''demo''), (''service'', PStr ''web'')]),
           (''namespace'', PStr ''demo'')]),
        (''spec'', PDict [(''template'', PDict [
           (''metadata'', PDict [(''labels'',
              PDict [(''app'', PStr ''demo''), (''service'', PStr ''web'')])]),
           (''spec'', PDict [(''containers'', PList [PDict [
              (''name'', PStr ''web''),
              (''securityContext'', PDict [(''Capabilities'',
                 PDict [(''add'', PList [PStr ''CAP_NET_ADMIN'']), (''drop'', PList [])])]),
              (''state'', PStr ''present'')]])]),
           (''replicas'', PInt 1),
           (''strategy'', PDict [(''type'', PStr ''RollingUpate'')])])])]]"
  by code_simp

text \<open>
  C7. The specification asks that two evaluations of a generator on an unchanged input
  give the same output and leave the input as it was. For the workload generator and a
  service with a directive named \<^verbatim>\<open>securityContext\<close> neither holds: the last branch of
  the chain makes the container hold the mapping of the input itself, \<^verbatim>\<open>cap_add\<close> then
  writes the capability lists into it, and the second evaluation finds them there and
  appends to them again. Below, in this order: the services mapping before the first
  evaluation, the services mapping after it, the first output, the second output.
\<close>

theorem deployments_twice_aliasing:
  "deployments_twice shlex_split_words aliasing_example =
     Inr (Some (PDict [(''web'', PDict [(''securityContext'', PDict []),
                                        (''cap_add'', PList [PStr ''NET_ADMIN''])])]),
          Some (PDict [(''web'', PDict [
                  (''securityContext'', PDict [(''Capabilities'',
                     PDict [(''add'', PList [PStr ''CAP_NET_ADMIN'']), (''drop'', PList [])])]),
                  (''cap_add'', PList [PStr ''NET_ADMIN''])])]),
          [Some (PDict [(''apiVersion'', PStr ''extensions/v1beta1''), (''kind'', PStr ''Deployment''),
        (''metadata'', PDict [(''name'', PStr ''web''),
           (''labels'', PDict [(''app'', PStr ''demo''), (''service'', PStr ''web'')]),
           (''namespace'', PStr ''demo'')]),
        (''spec'', PDict [(''template'', PDict [
           (''metadata'', PDict [(''labels'',
              PDict [(''app'', PStr ''demo''), (''service'', PStr ''web'')])]),
           (''spec'', PDict [(''containers'', PList [PDict [
              (''name'', PStr ''web''),
              (''securityContext'', PDict [(''Capabilities'',
                 PDict [(''add'', PList [PStr ''CAP_NET_ADMIN'']), (''drop'', PList [])])]),
              (''state'', PStr ''present'')]])]),
           (''replicas'', PInt 1),
           (''strategy'', PDict [(''type'', PStr ''RollingUpate'')])])])])],
          [Some (PDict [(''apiVersion'', PStr ''extensions/v1beta1''), (''kind'', PStr ''Deployment''),
        (''metadata'', PDict [(''name'', PStr ''web''),
           (''labels'', PDict [(''app'', PStr ''demo''), (''service'', PStr ''web'')]),
           (''namespace'', PStr ''demo'')]),
        (''spec'', PDict [(''template'', PDict [
           (''metadata'', PDict [(''labels'',
              PDict [(''app'', PStr ''demo''), (''service'', PStr ''web'')])]),
           (''spec'', PDict [(''containers'', PList [PDict [
              (''name'', PStr ''web''),
              (''securityContext'', PDict [(''Capabilities'',
                 PDict [(''add'', PList [PStr ''CAP_NET_ADMIN'', PStr ''CAP_NET_ADMIN'']), (''drop'', PList [])])]),
              (''state'', PStr ''present'')]])]),
           (''replicas'', PInt 1),
           (''strategy'', PDict [(''type'', PStr ''RollingUpate'')])])])])])"
  by code_simp

subsection \<open>The load-balanced type is never set\<close>

text \<open>Every descriptor that the resolver builds has equal \<^verbatim>\<open>port\<close> and
  \<^verbatim>\<open>targetPort\<close>, so the loop of \<^verbatim>\<open>_create_service\<close> that sets the type
  \<^verbatim>\<open>LoadBalancer\<close> never finds a port to act on.\<close>

lemma append_port_same_target:
  "append_port ports port protocol = Inr ports' \<Longrightarrow> list_all same_target ports \<Longrightarrow>
   list_all same_target ports'"
  by (auto simp: append_port_def bnd_def port_descriptor_def same_target_def
        split: sum.splits if_splits)

lemma ports_step_same_target:
  "ports_step ports port = Inr ports' \<Longrightarrow> list_all same_target ports \<Longrightarrow>
   list_all same_target ports'"
  by (auto simp: ports_step_def bnd_def split: sum.splits prod.splits
        dest: append_port_same_target)

lemma expose_step_same_target:
  "expose_step ports port = Inr ports' \<Longrightarrow> list_all same_target ports \<Longrightarrow>
   list_all same_target ports'"
  by (auto simp: expose_step_def bnd_def split: sum.splits prod.splits
        dest: append_port_same_target)

lemma get_service_ports_same_target:
  assumes "get_service_ports service = Inr ports"
  shows "list_all same_target ports"
proof -
  from assms obtain ps es ports0 where
    1: "for_each ports_step ps [] = Inr ports0" and 2: "for_each expose_step es ports0 = Inr ports"
    by (auto simp: get_service_ports_def bnd_def split: sum.splits)
  have "list_all same_target ports0"
    by (rule for_each_invariant[OF 1]) (auto dest: ports_step_same_target)
  then show ?thesis
    by (rule for_each_invariant[OF 2]) (auto dest: expose_step_same_target)
qed

lemma create_service_never_escalates:
  assumes "create_service project_name name service = Inr t" "truthy t"
  shows "bnd (py_getitem t ''spec'') (\<lambda>sp. py_get sp ''type'') = Inr PNone"
proof -
  from assms obtain ports where p: "get_service_ports service = Inr ports"
    by (auto simp: create_service_def bnd_def Let_def split: sum.splits if_splits)
  from get_service_ports_same_target[OF p]
  have "filter (\<lambda>p. py_getitem p ''port'' \<noteq> py_getitem p ''targetPort'') ports = []"
    by (auto simp: list_all_iff same_target_def filter_empty_conv)
  with assms p show ?thesis
    by (auto simp: create_service_def bnd_def Let_def split: sum.splits if_splits)
qed

end
